theory Spec2Isabelle
  imports Complex_Main "HOL-Library.Word" "HOL-Library.AList"
begin

unbundle bit_operations_syntax

section \<open>Strings\<close>

text \<open>
  A JavaScript string is modelled as a \<^typ>\<open>string\<close>: a list of code units, each below 256.
  \<open>toUpperCase\<close> maps the letters \<open>a\<close> to \<open>z\<close> and leaves every other code unit as it is,
  which is what JavaScript does on ASCII text (the names of the upstream source). A value that
  may be \<open>undefined\<close> or \<open>null\<close> is an \<open>option\<close>, and the empty string is falsy as in the
  source.
\<close>

definition charCodeAt :: "char \<Rightarrow> nat" where
  "charCodeAt c = of_char c"

definition toUpperChar :: "char \<Rightarrow> char" where
  "toUpperChar c =
     (case map_of (zip ''abcdefghijklmnopqrstuvwxyz'' ''ABCDEFGHIJKLMNOPQRSTUVWXYZ'') c of
        Some u \<Rightarrow> u
      | None \<Rightarrow> c)"

definition toUpperCase :: "string \<Rightarrow> string" where
  "toUpperCase s = map toUpperChar s"

definition substring :: "nat \<Rightarrow> nat \<Rightarrow> string \<Rightarrow> string" where
  "substring i j s = take (j - i) (drop i s)"

definition digitChar :: "nat \<Rightarrow> char" where
  "digitChar d = ''0123456789'' ! d"

fun toString :: "nat \<Rightarrow> string" where
  "toString n = (if n < 10 then [digitChar n] else toString (n div 10) @ [digitChar (n mod 10)])"

declare toString.simps [simp del]

definition padStart :: "nat \<Rightarrow> char \<Rightarrow> string \<Rightarrow> string" where
  "padStart n c s = replicate (n - length s) c @ s"

definition isDigit :: "char \<Rightarrow> bool" where
  "isDigit c = (48 \<le> charCodeAt c \<and> charCodeAt c \<le> 57)"

definition digitValue :: "char \<Rightarrow> nat" where
  "digitValue c = charCodeAt c - 48"

definition decimalValue :: "string \<Rightarrow> nat" where
  "decimalValue s = foldl (\<lambda>a c. a * 10 + digitValue c) 0 s"

section \<open>District code derivation\<close>

text \<open>
  \<^verbatim>\<open>hashCode(str)\<close>: the loop keeps \<open>hash\<close> in 32 bits (\<open>hash = hash & hash\<close> converts to a
  signed 32-bit integer after every step). \<open>(hash << 5) - hash + char\<close> is computed exactly and
  then truncated, which is the wrapping arithmetic of \<^typ>\<open>32 word\<close>; the function returns the
  signed reading.
\<close>

fun hashCode_loop :: "string \<Rightarrow> 32 word \<Rightarrow> 32 word" where
  "hashCode_loop [] hash = hash"
| "hashCode_loop (c # cs) hash =
     hashCode_loop cs ((push_bit 5 hash - hash) + word_of_nat (charCodeAt c))"

definition hashCode :: "string \<Rightarrow> int" where
  "hashCode str = sint (hashCode_loop str 0)"

text \<open>
  \<^verbatim>\<open>generateDistrictCode(districtName, stateCode)\<close>: a missing or empty name or state code
  gives \<open>UNKNOWN\<close>.
\<close>

definition generateDistrictCode :: "string option \<Rightarrow> string \<Rightarrow> string" where
  "generateDistrictCode districtName stateCode =
     (case districtName of
        None \<Rightarrow> ''UNKNOWN''
      | Some dn \<Rightarrow>
          if dn = [] \<or> stateCode = [] then ''UNKNOWN''
          else
            (let districtPrefix = toUpperCase (substring 0 3 dn);
                 hash = nat \<bar>hashCode dn\<bar> mod 1000
             in stateCode @ districtPrefix @ padStart 3 (CHR ''0'') (toString hash)))"

section \<open>Parsing reporting periods\<close>

text \<open>
  A JavaScript number that may be \<open>NaN\<close> is an \<open>option\<close>: \<open>None\<close> is \<open>NaN\<close>.
  \<^verbatim>\<open>parseInt(s)\<close> without a radix: leading white space is skipped, a sign is read, a prefix
  \<open>0x\<close>/\<open>0X\<close> selects radix 16, and the longest prefix of digits is converted; no digit
  gives \<open>NaN\<close>. The value is kept exact (a double is exact up to \<open>2^53\<close>).
\<close>

definition isWhiteSpace :: "char \<Rightarrow> bool" where
  "isWhiteSpace c = (charCodeAt c \<in> set [9, 10, 11, 12, 13, 32, 160])"

definition radixDigit :: "nat \<Rightarrow> char \<Rightarrow> nat option" where
  "radixDigit R c =
     (let n = charCodeAt c;
          v = (if 48 \<le> n \<and> n \<le> 57 then Some (n - 48)
               else if 97 \<le> n \<and> n \<le> 122 then Some (n - 87)
               else if 65 \<le> n \<and> n \<le> 90 then Some (n - 55)
               else None)
      in case v of None \<Rightarrow> None | Some d \<Rightarrow> if d < R then Some d else None)"

definition radixValue :: "nat \<Rightarrow> string \<Rightarrow> nat" where
  "radixValue R Z = foldl (\<lambda>a c. a * R + (case radixDigit R c of Some d \<Rightarrow> d | None \<Rightarrow> 0)) 0 Z"

definition parseInt :: "string \<Rightarrow> int option" where
  "parseInt inputString =
     (let S = dropWhile isWhiteSpace inputString;
          sign = (if take 1 S = ''-'' then - 1 else 1);
          S = (if take 1 S = ''+'' \<or> take 1 S = ''-'' then drop 1 S else S);
          hex = (take 2 S = ''0x'' \<or> take 2 S = ''0X'');
          R = (if hex then 16 else 10);
          S = (if hex then drop 2 S else S);
          Z = takeWhile (\<lambda>c. radixDigit R c \<noteq> None) S
      in if Z = [] then None else Some (sign * int (radixValue R Z)))"

text \<open>\<^verbatim>\<open>str.split(sep)\<close> for a one-character separator; \<^verbatim>\<open>str.includes(sep)\<close>.\<close>

fun split :: "char \<Rightarrow> string \<Rightarrow> string list" where
  "split sep [] = [[]]"
| "split sep (c # cs) =
     (if c = sep then [] # split sep cs
      else (case split sep cs of [] \<Rightarrow> [[c]] | p # ps \<Rightarrow> (c # p) # ps))"

definition str_includes :: "string \<Rightarrow> char \<Rightarrow> bool" where
  "str_includes s c = (c \<in> set s)"

text \<open>
  An array element that may be missing: \<open>parts[i]\<close> is \<open>undefined\<close> past the end, and
  \<^verbatim>\<open>parseInt(undefined)\<close> is \<open>NaN\<close>.
\<close>

definition element :: "'a list \<Rightarrow> nat \<Rightarrow> 'a option" where
  "element xs i = (if i < length xs then Some (xs ! i) else None)"

definition parseInt_opt :: "string option \<Rightarrow> int option" where
  "parseInt_opt v = (case v of None \<Rightarrow> None | Some s \<Rightarrow> parseInt s)"

record fy_data =
  startYear :: "int option"
  endYear :: "int option"

text \<open>
  \<^verbatim>\<open>parseFinancialYear(finYear)\<close>; \<open>currentYear\<close> is \<^verbatim>\<open>new Date().getFullYear()\<close>, read from
  the clock by the source and a parameter here.
\<close>

definition parseFinancialYear :: "int \<Rightarrow> string option \<Rightarrow> fy_data" where
  "parseFinancialYear currentYear finYear =
     (case finYear of
        None \<Rightarrow> \<lparr>startYear = Some currentYear, endYear = Some (currentYear + 1)\<rparr>
      | Some s \<Rightarrow>
          if s = [] \<or> \<not> str_includes s (CHR ''-'')
          then \<lparr>startYear = Some currentYear, endYear = Some (currentYear + 1)\<rparr>
          else
            (let parts = split (CHR ''-'') s
             in \<lparr>startYear = parseInt_opt (element parts 0),
                 endYear = parseInt_opt (element parts 1)\<rparr>))"

section \<open>Derived metrics\<close>

text \<open>
  The numeric columns of a stored performance row (model \<open>DistrictPerformance\<close>): integer
  columns are \<^typ>\<open>int\<close>, decimal columns are exact reals. Arithmetic on them is exact;
  the rounding error of doubles is not modelled.
\<close>

record performance_fields =
  approvedLabourBudget :: int
  averageWageRate :: real
  averageDaysEmployment :: real
  totalHouseholdsWorked :: int
  totalIndividualsWorked :: int
  completedWorks :: int
  ongoingWorks :: int
  womenPersondays :: real
  scPersondays :: int
  stPersondays :: int
  totalExpenditure :: int
  wages :: int
  households100Days :: int
  paymentWithin15Days :: real

text \<open>Every numeric column has \<^verbatim>\<open>defaultValue: 0\<close>.\<close>

definition default_fields :: performance_fields where
  "default_fields =
     \<lparr>approvedLabourBudget = 0, averageWageRate = 0, averageDaysEmployment = 0,
      totalHouseholdsWorked = 0, totalIndividualsWorked = 0, completedWorks = 0,
      ongoingWorks = 0, womenPersondays = 0, scPersondays = 0, stPersondays = 0,
      totalExpenditure = 0, wages = 0, households100Days = 0, paymentWithin15Days = 0\<rparr>"

text \<open>\<^verbatim>\<open>Math.round\<close>: the nearest integer, a tie going up.\<close>

definition Math_round :: "real \<Rightarrow> int" where
  "Math_round x = \<lfloor>x + 1 / 2\<rfloor>"

definition calculatePerformanceScore :: "performance_fields \<Rightarrow> int" where
  "calculatePerformanceScore district =
     (let score = 0;
          score = score + min ((averageDaysEmployment district / 100) * 30) 30;
          score = score + (paymentWithin15Days district / 100) * 25;
          score = score + min ((womenPersondays district / 50) * 20) 20;
          totalWorks = completedWorks district + ongoingWorks district;
          score = (if totalWorks > 0
                   then score + (of_int (completedWorks district) / of_int totalWorks) * 25
                   else score)
      in Math_round score)"


subsection \<open>Ratio helpers\<close>










subsection \<open>District comparison\<close>

text \<open>
  \<^verbatim>\<open>[...values].sort((a, b) => b - a)\<close>: the library sort, modelled as a stable insertion
  sort driven by the comparator (\<open>x\<close> stays before \<open>y\<close> when the comparator is not positive).
\<close>

fun insert_cmp :: "('a \<Rightarrow> 'a \<Rightarrow> real) \<Rightarrow> 'a \<Rightarrow> 'a list \<Rightarrow> 'a list" where
  "insert_cmp cmp x [] = [x]"
| "insert_cmp cmp x (y # ys) = (if cmp x y \<le> 0 then x # y # ys else y # insert_cmp cmp x ys)"

definition sort_cmp :: "('a \<Rightarrow> 'a \<Rightarrow> real) \<Rightarrow> 'a list \<Rightarrow> 'a list" where
  "sort_cmp cmp xs = foldr (insert_cmp cmp) xs []"

text \<open>\<^verbatim>\<open>sorted.indexOf(v)\<close>: the first index holding \<open>v\<close>, or \<open>-1\<close>.\<close>

fun indexOf :: "'a list \<Rightarrow> 'a \<Rightarrow> int" where
  "indexOf [] v = - 1"
| "indexOf (x # xs) v =
     (if x = v then 0 else (let i = indexOf xs v in if i < 0 then - 1 else i + 1))"





section \<open>Upstream records and their derived keys\<close>

text \<open>
  A raw record of the upstream source. A text property may be missing. A numeric property
  stands for what \<^verbatim>\<open>parseInt\<close> or \<^verbatim>\<open>parseFloat\<close> returns on it in
  \<open>preparePerformanceRecords\<close>: a number, or \<open>None\<close> for \<open>NaN\<close>.
\<close>

record api_record =
  state_name :: "string option"
  state_code :: "string option"
  district_name :: "string option"
  district_code :: "string option"
  fin_year :: "string option"
  month :: "string option"
  Approved_Labour_Budget :: "int option"
  Average_Wage_rate_per_day_per_person :: "real option"
  Average_days_of_employment_provided_per_Household :: "real option"
  Total_Households_Worked :: "int option"
  Total_Individuals_Worked :: "int option"
  Number_of_Completed_Works :: "int option"
  Number_of_Ongoing_Works :: "int option"
  Women_Persondays :: "real option"
  SC_persondays :: "int option"
  ST_persondays :: "int option"
  Total_Exp :: "int option"
  Wages :: "int option"
  Total_No_of_HHs_completed_100_Days_of_Wage_Employment :: "int option"
  percentage_payments_gererated_within_15_days :: "real option"

text \<open>The record with no property at all.\<close>

definition empty_record :: api_record where
  "empty_record =
     \<lparr>state_name = None, state_code = None, district_name = None, district_code = None,
      fin_year = None, month = None, Approved_Labour_Budget = None,
      Average_Wage_rate_per_day_per_person = None,
      Average_days_of_employment_provided_per_Household = None,
      Total_Households_Worked = None, Total_Individuals_Worked = None,
      Number_of_Completed_Works = None, Number_of_Ongoing_Works = None,
      Women_Persondays = None, SC_persondays = None, ST_persondays = None, Total_Exp = None,
      Wages = None, Total_No_of_HHs_completed_100_Days_of_Wage_Employment = None,
      percentage_payments_gererated_within_15_days = None\<rparr>"

text \<open>\<^verbatim>\<open>x || d\<close> on an optional text, and \<^verbatim>\<open>n || 0\<close> on a number that may be \<open>NaN\<close>.\<close>

definition or_text :: "string option \<Rightarrow> string \<Rightarrow> string" where
  "or_text x d = (case x of None \<Rightarrow> d | Some s \<Rightarrow> if s = [] then d else s)"

definition or_zero :: "'a::zero option \<Rightarrow> 'a" where
  "or_zero x = (case x of None \<Rightarrow> 0 | Some v \<Rightarrow> v)"

text \<open>\<^verbatim>\<open>s?.toUpperCase() || ''\<close>.\<close>

definition upper_or_empty :: "string option \<Rightarrow> string" where
  "upper_or_empty x = (case x of None \<Rightarrow> [] | Some s \<Rightarrow> toUpperCase s)"

definition stateCodeMap :: "(string \<times> string) list" where
  "stateCodeMap =
     [(''ANDHRA PRADESH'', ''AP''), (''ARUNACHAL PRADESH'', ''AR''), (''ASSAM'', ''AS''),
      (''BIHAR'', ''BR''), (''CHHATTISGARH'', ''CG''), (''GOA'', ''GA''), (''GUJARAT'', ''GJ''),
      (''HARYANA'', ''HR''), (''HIMACHAL PRADESH'', ''HP''), (''JHARKHAND'', ''JH''),
      (''KARNATAKA'', ''KA''), (''KERALA'', ''KL''), (''MADHYA PRADESH'', ''MP''),
      (''MAHARASHTRA'', ''MH''), (''MANIPUR'', ''MN''), (''MEGHALAYA'', ''ML''),
      (''MIZORAM'', ''MZ''), (''NAGALAND'', ''NL''), (''ODISHA'', ''OR''), (''PUNJAB'', ''PB''),
      (''RAJASTHAN'', ''RJ''), (''SIKKIM'', ''SK''), (''TAMIL NADU'', ''TN''),
      (''TELANGANA'', ''TG''), (''TRIPURA'', ''TR''), (''UTTAR PRADESH'', ''UP''),
      (''UTTARAKHAND'', ''UK''), (''WEST BENGAL'', ''WB'')]"

definition generateStateCode :: "string option \<Rightarrow> string" where
  "generateStateCode stateName =
     (case stateName of
        None \<Rightarrow> ''XX''
      | Some n \<Rightarrow>
          if n = [] then ''XX''
          else (case map_of stateCodeMap (toUpperCase n) of
                  Some c \<Rightarrow> c
                | None \<Rightarrow> toUpperCase (substring 0 2 n)))"

text \<open>
  The two keys every step derives from a record in the same way:
  \<^verbatim>\<open>record.state_code || generateStateCode(record.state_name)\<close> and
  \<^verbatim>\<open>record.district_code || generateDistrictCode(record.district_name, stateCode)\<close>.
\<close>

definition record_stateCode :: "api_record \<Rightarrow> string" where
  "record_stateCode r = or_text (state_code r) (generateStateCode (state_name r))"

definition record_districtCode :: "api_record \<Rightarrow> string" where
  "record_districtCode r =
     or_text (district_code r) (generateDistrictCode (district_name r) (record_stateCode r))"

section \<open>Storage\<close>

text \<open>
  The relational store is a collaborator of the code; it is modelled by the constraints the
  Sequelize models declare. A table is a list of rows in insertion order, keyed by its
  primary or unique key:
  \<^item> \<open>states\<close>: primary key \<open>stateCode\<close>, attribute \<open>stateName\<close>;
  \<^item> \<open>districts\<close>: primary key \<open>districtCode\<close>; \<open>stateCode\<close> references \<open>states\<close>;
  \<^item> \<open>financial_years\<close>: primary key \<open>finYear\<close>; integer years, not null;
  \<^item> \<open>district_performance\<close>: unique key (districtCode, finYear, month), all not null; an
    auto-increment \<open>id\<close>; \<open>districtCode\<close> references \<open>districts\<close> and \<open>finYear\<close> references
    \<open>financial_years\<close>;
  \<^item> \<open>district_extended_metrics\<close>: unique \<open>performanceId\<close>, which references the \<open>id\<close> of
    \<open>district_performance\<close>; an auto-increment \<open>id\<close>.
  Timestamps, column widths, the collation and the secondary unique index on \<open>stateName\<close>
  are not modelled.
\<close>

record district_attrs =
  districtName :: string
  stateCode :: string

record perf_row =
  perf_id :: nat
  metric_fields :: performance_fields
  performanceScore :: int
  performanceGrade :: "string option"

type_synonym perf_key = "string \<times> string \<times> string"

record ext_row =
  ext_id :: nat
  indicators :: "(string \<times> int) list"

record database =
  State_rows :: "(string \<times> string) list"
  District_rows :: "(string \<times> district_attrs) list"
  FinancialYear_rows :: "(string \<times> fy_data) list"
  DistrictPerformance_rows :: "(perf_key \<times> perf_row) list"
  DistrictPerformance_next_id :: nat
  DistrictExtendedMetrics_rows :: "(nat \<times> ext_row) list"
  DistrictExtendedMetrics_next_id :: nat

datatype model = State | District | FinancialYear | DistrictPerformance | DistrictExtendedMetrics

datatype db_error =
    ForeignKeyViolation model
  | NotNullViolation model
  | InvalidNumber model

definition keys :: "('k \<times> 'v) list \<Rightarrow> 'k list" where
  "keys tbl = map fst tbl"

text \<open>
  \<^verbatim>\<open>Model.bulkCreate(rows, { updateOnDuplicate })\<close> on a table whose listed columns are all
  its non-key columns: each row, in order, replaces the row with its key or is appended
  (\<open>INSERT ... ON DUPLICATE KEY UPDATE\<close>).
\<close>

definition updateOnDuplicate :: "('k \<times> 'v) list \<Rightarrow> ('k \<times> 'v) list \<Rightarrow> ('k \<times> 'v) list" where
  "updateOnDuplicate rows tbl = fold (\<lambda>(k, v). AList.update k v) rows tbl"

text \<open>
  The same statement on \<open>district_performance\<close>: the listed columns are the fourteen numeric
  fields, so an existing row keeps its \<open>id\<close>, score and grade; a new row takes the next \<open>id\<close>
  and the column defaults. The instance handed back for a row is the stored row
  (\<^verbatim>\<open>returning: true // Get inserted records back\<close>).
\<close>

definition upsert_performance ::
  "perf_key \<Rightarrow> performance_fields \<Rightarrow> (perf_key \<times> perf_row) list \<times> nat
     \<Rightarrow> perf_row \<times> (perf_key \<times> perf_row) list \<times> nat" where
  "upsert_performance k f s =
     (case map_of (fst s) k of
        Some row \<Rightarrow> (row\<lparr>metric_fields := f\<rparr>, AList.update k (row\<lparr>metric_fields := f\<rparr>) (fst s), snd s)
      | None \<Rightarrow>
          (let row = \<lparr>perf_id = snd s, metric_fields = f, performanceScore = 0, performanceGrade = None\<rparr>
           in (row, fst s @ [(k, row)], Suc (snd s))))"

fun upsert_performances ::
  "(perf_key \<times> performance_fields) list \<Rightarrow> (perf_key \<times> perf_row) list \<times> nat
     \<Rightarrow> (perf_key \<times> perf_row) list \<times> (perf_key \<times> perf_row) list \<times> nat" where
  "upsert_performances [] s = ([], s)"
| "upsert_performances ((k, f) # rows) s =
     (case upsert_performance k f s of
        (row, s') \<Rightarrow> (case upsert_performances rows s' of (insts, s'') \<Rightarrow> ((k, row) # insts, s'')))"

text \<open>
  \<^verbatim>\<open>bulkCreate(rows, { ignoreDuplicates: true })\<close> on \<open>district_extended_metrics\<close>: a row
  whose \<open>performanceId\<close> is already present is skipped.
\<close>

definition insert_ignore ::
  "nat \<Rightarrow> (string \<times> int) list \<Rightarrow> (nat \<times> ext_row) list \<times> nat \<Rightarrow> (nat \<times> ext_row) list \<times> nat" where
  "insert_ignore performanceId ind s =
     (if performanceId \<in> set (keys (fst s)) then s
      else (fst s @ [(performanceId, \<lparr>ext_id = snd s, indicators = ind\<rparr>)], Suc (snd s)))"

text \<open>
  A transaction works on a copy of the store and records which models its statements wrote
  to. \<open>commit\<close> makes the copy the store; \<open>rollback\<close> keeps the store as it was.
\<close>

record txn =
  work :: database
  journal :: "model list"

definition begin_transaction :: "database \<Rightarrow> txn" where
  "begin_transaction db = \<lparr>work = db, journal = []\<rparr>"

definition commit :: "txn \<Rightarrow> database" where
  "commit t = work t"

definition rollback :: "database \<Rightarrow> txn \<Rightarrow> database" where
  "rollback db t = db"

definition statement :: "model \<Rightarrow> txn \<Rightarrow> txn" where
  "statement m t = t\<lparr>journal := journal t @ [m]\<rparr>"

section \<open>Reconciliation: \<open>processAndStoreDataBulk\<close>\<close>

text \<open>
  \<^verbatim>\<open>if (!map.has(key)) map.set(key, value)\<close> on a \<open>Map\<close>, which keeps insertion order;
  \<^verbatim>\<open>Array.from(map.values())\<close> is \<open>map snd\<close>.
\<close>

definition set_if_absent :: "'k \<Rightarrow> 'v \<Rightarrow> ('k \<times> 'v) list \<Rightarrow> ('k \<times> 'v) list" where
  "set_if_absent k v m = (if k \<in> set (keys m) then m else m @ [(k, v)])"

definition extractUniqueStates :: "api_record list \<Rightarrow> (string \<times> string) list" where
  "extractUniqueStates apiData =
     map snd (fold (\<lambda>record statesMap.
                      (let stateName = upper_or_empty (state_name record)
                       in set_if_absent stateName (record_stateCode record, stateName) statesMap))
                   apiData [])"

definition extractUniqueDistricts :: "api_record list \<Rightarrow> (string \<times> district_attrs) list" where
  "extractUniqueDistricts apiData =
     map snd (fold (\<lambda>record districtsMap.
                      (let districtCode = record_districtCode record
                       in set_if_absent districtCode
                            (districtCode,
                             \<lparr>districtName = upper_or_empty (district_name record),
                              stateCode = record_stateCode record\<rparr>)
                            districtsMap))
                   apiData [])"

definition extractUniqueFinYears :: "int \<Rightarrow> api_record list \<Rightarrow> (string \<times> fy_data) list" where
  "extractUniqueFinYears currentYear apiData =
     map snd (fold (\<lambda>record finYearsMap.
                      (let finYear = or_text (fin_year record) []
                       in if finYear \<in> set (keys finYearsMap) then finYearsMap
                          else finYearsMap
                                 @ [(finYear, (finYear, parseFinancialYear currentYear (Some finYear)))]))
                   apiData [])"

text \<open>
  \<open>preparePerformanceRecords\<close>: the month is \<^verbatim>\<open>record.month?.toUpperCase() || null\<close>, so
  it is \<open>None\<close> (\<open>null\<close>) for a missing or empty month.
\<close>

definition prepared_month :: "api_record \<Rightarrow> string option" where
  "prepared_month r =
     (case month r of None \<Rightarrow> None | Some m \<Rightarrow> if toUpperCase m = [] then None else Some (toUpperCase m))"

definition prepared_fields :: "api_record \<Rightarrow> performance_fields" where
  "prepared_fields r =
     \<lparr>approvedLabourBudget = or_zero (Approved_Labour_Budget r),
      averageWageRate = or_zero (Average_Wage_rate_per_day_per_person r),
      averageDaysEmployment = or_zero (Average_days_of_employment_provided_per_Household r),
      totalHouseholdsWorked = or_zero (Total_Households_Worked r),
      totalIndividualsWorked = or_zero (Total_Individuals_Worked r),
      completedWorks = or_zero (Number_of_Completed_Works r),
      ongoingWorks = or_zero (Number_of_Ongoing_Works r),
      womenPersondays = or_zero (Women_Persondays r),
      scPersondays = or_zero (SC_persondays r),
      stPersondays = or_zero (ST_persondays r),
      totalExpenditure = or_zero (Total_Exp r),
      wages = or_zero (Wages r),
      households100Days = or_zero (Total_No_of_HHs_completed_100_Days_of_Wage_Employment r),
      paymentWithin15Days = or_zero (percentage_payments_gererated_within_15_days r)\<rparr>"

definition preparePerformanceRecords ::
  "api_record list \<Rightarrow> ((string \<times> string \<times> string option) \<times> performance_fields) list" where
  "preparePerformanceRecords apiData =
     map (\<lambda>record.
            ((record_districtCode record, or_text (fin_year record) [], prepared_month record),
             prepared_fields record))
         apiData"

subsection \<open>The five statements\<close>

text \<open>
  A statement checks the constraints of its rows against the working copy and fails at the
  first row that violates one; otherwise it writes all rows.
\<close>

fun first_error :: "('r \<Rightarrow> db_error option) \<Rightarrow> 'r list \<Rightarrow> db_error option" where
  "first_error check [] = None"
| "first_error check (r # rs) =
     (case check r of Some e \<Rightarrow> Some e | None \<Rightarrow> first_error check rs)"

definition write_states :: "(string \<times> string) list \<Rightarrow> database \<Rightarrow> database" where
  "write_states rows db = db\<lparr>State_rows := updateOnDuplicate rows (State_rows db)\<rparr>"

definition district_check :: "database \<Rightarrow> string \<times> district_attrs \<Rightarrow> db_error option" where
  "district_check db row =
     (if stateCode (snd row) \<in> set (keys (State_rows db)) then None
      else Some (ForeignKeyViolation District))"

definition write_districts ::
  "(string \<times> district_attrs) list \<Rightarrow> database \<Rightarrow> db_error + database" where
  "write_districts rows db =
     (case first_error (district_check db) rows of
        Some e \<Rightarrow> Inl e
      | None \<Rightarrow> Inr (db\<lparr>District_rows := updateOnDuplicate rows (District_rows db)\<rparr>))"

definition finYear_check :: "string \<times> fy_data \<Rightarrow> db_error option" where
  "finYear_check row =
     (if startYear (snd row) = None \<or> endYear (snd row) = None
      then Some (InvalidNumber FinancialYear) else None)"

definition write_finYears ::
  "(string \<times> fy_data) list \<Rightarrow> database \<Rightarrow> db_error + database" where
  "write_finYears rows db =
     (case first_error finYear_check rows of
        Some e \<Rightarrow> Inl e
      | None \<Rightarrow> Inr (db\<lparr>FinancialYear_rows := updateOnDuplicate rows (FinancialYear_rows db)\<rparr>))"

definition performance_check ::
  "database \<Rightarrow> (string \<times> string \<times> string option) \<times> performance_fields \<Rightarrow> db_error option" where
  "performance_check db row =
     (case row of ((districtCode, finYear, m), f) \<Rightarrow>
        if m = None then Some (NotNullViolation DistrictPerformance)
        else if districtCode \<notin> set (keys (District_rows db))
                \<or> finYear \<notin> set (keys (FinancialYear_rows db))
        then Some (ForeignKeyViolation DistrictPerformance)
        else None)"

definition stored_key :: "string \<times> string \<times> string option \<Rightarrow> perf_key" where
  "stored_key k = (case k of (districtCode, finYear, m) \<Rightarrow> (districtCode, finYear, or_text m []))"

definition write_performance ::
  "((string \<times> string \<times> string option) \<times> performance_fields) list \<Rightarrow> database
     \<Rightarrow> db_error + (perf_key \<times> perf_row) list \<times> database" where
  "write_performance rows db =
     (case first_error (performance_check db) rows of
        Some e \<Rightarrow> Inl e
      | None \<Rightarrow>
          (case upsert_performances (map (\<lambda>(k, f). (stored_key k, f)) rows)
                  (DistrictPerformance_rows db, DistrictPerformance_next_id db) of
             (insts, tbl, n) \<Rightarrow>
               Inr (insts, db\<lparr>DistrictPerformance_rows := tbl, DistrictPerformance_next_id := n\<rparr>)))"

text \<open>
  The extended metrics row of the source: \<open>performanceId\<close> is the instance's \<open>id\<close>, every
  indicator is the literal 0. (The source also builds a lookup map of the raw records here
  and never uses what it looks up.)
\<close>

definition zero_indicators :: "(string \<times> int) list" where
  "zero_indicators =
     [(''totalWorkers'', 0), (''totalActiveWorkers'', 0), (''totalJobcardsIssued'', 0),
      (''totalActiveJobcards'', 0), (''scWorkersActive'', 0), (''stWorkersActive'', 0),
      (''differentlyAbledWorked'', 0), (''percentNrmExpenditure'', 0),
      (''percentCategoryBWorks'', 0), (''percentAgricultureAllied'', 0),
      (''totalAdminExpenditure'', 0), (''materialSkilledWages'', 0),
      (''persondaysCentralLiability'', 0), (''totalWorksTakenup'', 0), (''gpsWithNilExp'', 0)]"

definition ids :: "(perf_key \<times> perf_row) list \<Rightarrow> nat list" where
  "ids tbl = map (\<lambda>row. perf_id (snd row)) tbl"

definition performance_ids :: "database \<Rightarrow> nat list" where
  "performance_ids db = ids (DistrictPerformance_rows db)"

definition extended_check :: "database \<Rightarrow> nat \<Rightarrow> db_error option" where
  "extended_check db performanceId =
     (if performanceId \<in> set (performance_ids db) then None
      else Some (ForeignKeyViolation DistrictExtendedMetrics))"

definition write_extended ::
  "(perf_key \<times> perf_row) list \<Rightarrow> database \<Rightarrow> db_error + database" where
  "write_extended performances db =
     (let extendedMetricsRecords = map (\<lambda>perf. perf_id (snd perf)) performances
      in case first_error (extended_check db) extendedMetricsRecords of
           Some e \<Rightarrow> Inl e
         | None \<Rightarrow>
             (case fold (\<lambda>performanceId. insert_ignore performanceId zero_indicators)
                     extendedMetricsRecords
                     (DistrictExtendedMetrics_rows db, DistrictExtendedMetrics_next_id db) of
                (tbl, n) \<Rightarrow>
                  Inr (db\<lparr>DistrictExtendedMetrics_rows := tbl,
                          DistrictExtendedMetrics_next_id := n\<rparr>)))"

subsection \<open>The steps inside the transaction\<close>

text \<open>
  A step of the \<open>try\<close> block runs in the transaction and either returns a value or throws;
  \<open>bind_tx\<close> is sequencing, where a throw skips the remaining steps. Each \<open>bulkUpsert\<close>
  returns at once on an empty list and issues one statement otherwise.
\<close>

type_synonym 'a tx = "txn \<Rightarrow> (db_error + 'a) \<times> txn"

definition return_tx :: "'a \<Rightarrow> 'a tx" where
  "return_tx a t = (Inr a, t)"

definition bind_tx :: "'a tx \<Rightarrow> ('a \<Rightarrow> 'b tx) \<Rightarrow> 'b tx" where
  "bind_tx m f t = (case m t of (Inl e, t') \<Rightarrow> (Inl e, t') | (Inr a, t') \<Rightarrow> f a t')"

definition bulkUpsertStates :: "(string \<times> string) list \<Rightarrow> unit tx" where
  "bulkUpsertStates uniqueStates t =
     (if uniqueStates = [] then (Inr (), t)
      else (Inr (), (statement State t)\<lparr>work := write_states uniqueStates (work t)\<rparr>))"

definition bulkUpsertDistricts :: "(string \<times> district_attrs) list \<Rightarrow> unit tx" where
  "bulkUpsertDistricts uniqueDistricts t =
     (if uniqueDistricts = [] then (Inr (), t)
      else (case write_districts uniqueDistricts (work t) of
              Inl e \<Rightarrow> (Inl e, statement District t)
            | Inr db \<Rightarrow> (Inr (), (statement District t)\<lparr>work := db\<rparr>)))"

definition bulkUpsertFinancialYears :: "(string \<times> fy_data) list \<Rightarrow> unit tx" where
  "bulkUpsertFinancialYears uniqueFinYears t =
     (if uniqueFinYears = [] then (Inr (), t)
      else (case write_finYears uniqueFinYears (work t) of
              Inl e \<Rightarrow> (Inl e, statement FinancialYear t)
            | Inr db \<Rightarrow> (Inr (), (statement FinancialYear t)\<lparr>work := db\<rparr>)))"

definition bulkUpsertPerformance ::
  "((string \<times> string \<times> string option) \<times> performance_fields) list
     \<Rightarrow> ((perf_key \<times> perf_row) list) tx" where
  "bulkUpsertPerformance performanceRecords t =
     (if performanceRecords = [] then (Inr [], t)
      else (case write_performance performanceRecords (work t) of
              Inl e \<Rightarrow> (Inl e, statement DistrictPerformance t)
            | Inr (result, db) \<Rightarrow> (Inr result, (statement DistrictPerformance t)\<lparr>work := db\<rparr>)))"

definition bulkUpsertExtendedMetrics ::
  "(perf_key \<times> perf_row) list \<Rightarrow> api_record list \<Rightarrow> unit tx" where
  "bulkUpsertExtendedMetrics performances apiData t =
     (if performances = [] then (Inr (), t)
      else (case write_extended performances (work t) of
              Inl e \<Rightarrow> (Inl e, statement DistrictExtendedMetrics t)
            | Inr db \<Rightarrow> (Inr (), (statement DistrictExtendedMetrics t)\<lparr>work := db\<rparr>)))"

definition try_block :: "int \<Rightarrow> api_record list \<Rightarrow> ((perf_key \<times> perf_row) list) tx" where
  "try_block currentYear apiData =
     bind_tx (bulkUpsertStates (extractUniqueStates apiData)) (\<lambda>_.
     bind_tx (bulkUpsertDistricts (extractUniqueDistricts apiData)) (\<lambda>_.
     bind_tx (bulkUpsertFinancialYears (extractUniqueFinYears currentYear apiData)) (\<lambda>_.
     bind_tx (bulkUpsertPerformance (preparePerformanceRecords apiData)) (\<lambda>insertedPerformances.
     bind_tx (bulkUpsertExtendedMetrics insertedPerformances apiData) (\<lambda>_.
     return_tx insertedPerformances)))))"

text \<open>
  \<open>processAndStoreDataBulk\<close>: the result of the call is what it returns or throws
  (\<open>outcome\<close>), the store it leaves (\<open>storage\<close>) and the statements it issued. The catch
  block rolls back and rethrows the error.
\<close>

record ingest_result =
  outcome :: "db_error + (perf_key \<times> perf_row) list"
  storage :: database
  statements :: "model list"

definition processAndStoreDataBulk :: "int \<Rightarrow> api_record list \<Rightarrow> database \<Rightarrow> ingest_result" where
  "processAndStoreDataBulk currentYear apiData db =
     (let transaction = begin_transaction db
      in case try_block currentYear apiData transaction of
           (Inr insertedPerformances, t) \<Rightarrow>
             \<lparr>outcome = Inr insertedPerformances, storage = commit t, statements = journal t\<rparr>
         | (Inl error, t) \<Rightarrow>
             \<lparr>outcome = Inl error, storage = rollback db t, statements = journal t\<rparr>)"

text \<open>
  The effect of the five statements on the store alone, without the journal: what the
  transaction commits, or the error that aborts it.
\<close>

definition ingest_db ::
  "int \<Rightarrow> api_record list \<Rightarrow> database \<Rightarrow> db_error + (perf_key \<times> perf_row) list \<times> database" where
  "ingest_db currentYear apiData db =
     (case write_districts (extractUniqueDistricts apiData)
             (write_states (extractUniqueStates apiData) db) of
        Inl e \<Rightarrow> Inl e
      | Inr db2 \<Rightarrow>
     (case write_finYears (extractUniqueFinYears currentYear apiData) db2 of
        Inl e \<Rightarrow> Inl e
      | Inr db3 \<Rightarrow>
     (case write_performance (preparePerformanceRecords apiData) db3 of
        Inl e \<Rightarrow> Inl e
      | Inr (insts, db4) \<Rightarrow>
     (case write_extended insts db4 of
        Inl e \<Rightarrow> Inl e
      | Inr db5 \<Rightarrow> Inr (insts, db5)))))"

definition all_models :: "model list" where
  "all_models = [State, District, FinancialYear, DistrictPerformance, DistrictExtendedMetrics]"

text \<open>Referential integrity of a store: every declared reference resolves.\<close>

definition referential_integrity :: "database \<Rightarrow> bool" where
  "referential_integrity db =
     (list_all (\<lambda>row. stateCode (snd row) \<in> set (keys (State_rows db))) (District_rows db)
      \<and> list_all (\<lambda>row. fst (fst row) \<in> set (keys (District_rows db))
                        \<and> fst (snd (fst row)) \<in> set (keys (FinancialYear_rows db)))
           (DistrictPerformance_rows db)
      \<and> list_all (\<lambda>row. fst row \<in> set (performance_ids db)) (DistrictExtendedMetrics_rows db))"


definition empty_database :: database where
  "empty_database =
     \<lparr>State_rows = [], District_rows = [], FinancialYear_rows = [],
      DistrictPerformance_rows = [], DistrictPerformance_next_id = 1,
      DistrictExtendedMetrics_rows = [], DistrictExtendedMetrics_next_id = 1\<rparr>"

text \<open>
  An example batch, after the scenario of the specification: three records of Kerala for
  2024-2025, two of them for the same district and month.
\<close>

definition example_batch :: "api_record list" where
  "example_batch =
     [empty_record\<lparr>state_name := Some ''Kerala'', district_name := Some ''Palakkad'',
                    district_code := Some ''1601'', fin_year := Some ''2024-2025'',
                    month := Some ''Dec'', Total_Households_Worked := Some 12\<rparr>,
      empty_record\<lparr>state_name := Some ''Kerala'', district_name := Some ''Idukki'',
                    district_code := Some ''1602'', fin_year := Some ''2024-2025'',
                    month := Some ''Dec'', Total_Households_Worked := Some 7\<rparr>,
      empty_record\<lparr>state_name := Some ''Kerala'', district_name := Some ''Palakkad'',
                    district_code := Some ''1601'', fin_year := Some ''2024-2025'',
                    month := Some ''Dec'', Total_Households_Worked := Some 15\<rparr>]"

section \<open>Query resolver: \<open>getDistrictData\<close>\<close>

subsection \<open>Upstream and store as seen by a request\<close>

text \<open>
  \<^verbatim>\<open>mgnregaApiService.fetchDistrictData({ stateName, finYear, districtName })\<close> is the one
  way to the upstream source (it answers from its cache or from the network). It is a
  collaborator: the environment gives, for the number of calls made so far and the arguments,
  either an error (the service throws) or the records. A request runs in a world made of the
  store and the list of upstream calls made, in order.
\<close>

type_synonym fetch_args = "string \<times> string \<times> string option"

datatype fetch_error = ApiError

record environment =
  upstream :: "nat \<Rightarrow> fetch_args \<Rightarrow> fetch_error + api_record list"
  currentYear :: int

record world =
  store :: database
  calls :: "fetch_args list"

definition fetchDistrictData ::
  "environment \<Rightarrow> fetch_args \<Rightarrow> world \<Rightarrow> (fetch_error + api_record list) \<times> world" where
  "fetchDistrictData env args w =
     (upstream env (length (calls w)) args, w\<lparr>calls := calls w @ [args]\<rparr>)"

text \<open>\<^verbatim>\<open>await dataProcessingService.processAndStoreDataBulk(apiData)\<close> in a world.\<close>

definition store_records ::
  "environment \<Rightarrow> api_record list \<Rightarrow> world
     \<Rightarrow> (db_error + (perf_key \<times> perf_row) list) \<times> world" where
  "store_records env apiData w =
     (let r = processAndStoreDataBulk (currentYear env) apiData (store w)
      in (outcome r, w\<lparr>store := storage r\<rparr>))"

text \<open>
  \<^verbatim>\<open>{ [Op.like]: pattern }\<close>: SQL \<open>LIKE\<close> with the wildcards \<open>%\<close> and \<open>_\<close>, comparing
  letters without regard to case (the collation is case-insensitive). The escape character
  is not modelled. \<open>findOne\<close> returns the first matching row.
\<close>

fun sql_like :: "string \<Rightarrow> string \<Rightarrow> bool" where
  "sql_like [] [] = True"
| "sql_like [] (c # cs) = False"
| "sql_like (p # ps) [] = (p = CHR ''%'' \<and> sql_like ps [])"
| "sql_like (p # ps) (c # cs) =
     (if p = CHR ''%'' then sql_like ps (c # cs) \<or> sql_like (p # ps) cs
      else (p = CHR ''_'' \<or> toUpperChar p = toUpperChar c) \<and> sql_like ps cs)"

definition State_findOne :: "database \<Rightarrow> string \<Rightarrow> (string \<times> string) option" where
  "State_findOne d pattern = find (\<lambda>row. sql_like pattern (snd row)) (State_rows d)"

definition District_findOne ::
  "database \<Rightarrow> string \<Rightarrow> string \<Rightarrow> (string \<times> district_attrs) option" where
  "District_findOne d pattern sc =
     find (\<lambda>row. sql_like pattern (districtName (snd row)) \<and> stateCode (snd row) = sc)
          (District_rows d)"

record where_clause =
  where_finYear :: string
  where_month :: "string option"
  where_districtCode :: "string option"

text \<open>
  \<open>fetchPerformanceData\<close>: the performance rows matching the where clause whose district
  (inner join) belongs to the state. The order of the rows (\<open>month\<close>, \<open>updated_at\<close>
  descending) and the joined financial year and extended metrics are not modelled.
\<close>

definition fetchPerformanceData ::
  "where_clause \<Rightarrow> string \<Rightarrow> database \<Rightarrow> (perf_key \<times> perf_row) list" where
  "fetchPerformanceData whereClause sc d =
     filter (\<lambda>row.
               fst (snd (fst row)) = where_finYear whereClause
             \<and> (case where_month whereClause of None \<Rightarrow> True | Some m \<Rightarrow> snd (snd (fst row)) = m)
             \<and> (case where_districtCode whereClause of None \<Rightarrow> True | Some c \<Rightarrow> fst (fst row) = c)
             \<and> (case map_of (District_rows d) (fst (fst row)) of
                   None \<Rightarrow> False
                 | Some a \<Rightarrow> stateCode a = sc))
            (DistrictPerformance_rows d)"

subsection \<open>Responses\<close>

record response =
  status :: nat
  success :: bool
  message :: string
  payload :: "(perf_key \<times> perf_row \<times> int \<times> string) list"

definition quoted :: "string \<Rightarrow> string" where
  "quoted s = [CHR 0x27] @ s @ [CHR 0x27]"

definition failure :: "nat \<Rightarrow> string \<Rightarrow> response" where
  "failure code msg = \<lparr>status = code, success = False, message = msg, payload = []\<rparr>"

definition missing_parameters :: response where
  "missing_parameters = failure 400 ''State name and financial year are required parameters''"

definition state_unknown_anywhere :: "string \<Rightarrow> response" where
  "state_unknown_anywhere st =
     failure 404 (''State '' @ quoted st
       @ '' not found and no data available from external API. Please check the state name or try a different financial year (2022-2023, 2023-2024).'')"

definition no_data_for_year :: "string \<Rightarrow> string \<Rightarrow> response" where
  "no_data_for_year st fy =
     failure 404 (''No data found for state '' @ quoted st @ '' and financial year '' @ quoted fy
       @ ''. Data may not be available for this year yet.'')"

definition upstream_unavailable :: response where
  "upstream_unavailable =
     failure 503 ''Unable to fetch data from external source. The external API may be unavailable or rate-limiting requests.''"

definition state_not_found :: "string \<Rightarrow> response" where
  "state_not_found st = failure 404 (''State '' @ quoted st @ '' not found'')"

definition district_not_found :: "string \<Rightarrow> string \<Rightarrow> response" where
  "district_not_found di st =
     failure 404 (''District '' @ quoted di @ '' not found in state '' @ quoted st)"

definition district_not_found_after_fetch :: "string \<Rightarrow> string \<Rightarrow> response" where
  "district_not_found_after_fetch di st =
     failure 404 (''District '' @ quoted di @ '' not found in state '' @ quoted st
       @ '' even after fetching from API'')"

definition no_performance_data :: response where
  "no_performance_data = failure 404 ''No performance data found for the specified criteria''"

definition internal_error :: response where
  "internal_error = failure 500 ''Failed to fetch district data''"

definition getPerformanceGrade :: "performance_fields \<Rightarrow> string" where
  "getPerformanceGrade district =
     (let score = calculatePerformanceScore district
      in if score \<ge> 80 then ''A'' else if score \<ge> 60 then ''B''
         else if score \<ge> 40 then ''C'' else if score \<ge> 20 then ''D'' else ''E'')"

definition found :: "(perf_key \<times> perf_row) list \<Rightarrow> response" where
  "found rows =
     \<lparr>status = 200, success = True, message = [],
      payload = map (\<lambda>item. (fst item, snd item,
                                calculatePerformanceScore (metric_fields (snd item)),
                                getPerformanceGrade (metric_fields (snd item)))) rows\<rparr>"

subsection \<open>The protocol\<close>

text \<open>A query parameter is used when it is present and not empty.\<close>

definition truthy :: "string option \<Rightarrow> string option" where
  "truthy x = (case x of None \<Rightarrow> None | Some s \<Rightarrow> if s = [] then None else Some s)"

record request =
  q_state :: "string option"
  q_district :: "string option"
  q_finYear :: "string option"
  q_month :: "string option"

text \<open>
  \<open>buildWhereClause\<close>: with a district filter, the district is looked up by name within
  the state; when it is missing, one upstream call scoped to the district is made and its
  records are stored. An error of that call or of the storing is caught and logged. The
  result is \<open>None\<close> (\<open>null\<close>) when the district is still missing.
\<close>

definition buildWhereClause ::
  "environment \<Rightarrow> string \<Rightarrow> string option \<Rightarrow> string option \<Rightarrow> string \<Rightarrow> string \<Rightarrow> world
     \<Rightarrow> where_clause option \<times> world" where
  "buildWhereClause env fy mo di sc sname w =
     (let whereClause = \<lparr>where_finYear = fy, where_month = map_option toUpperCase (truthy mo),
                          where_districtCode = None\<rparr>
      in case truthy di of
           None \<Rightarrow> (Some whereClause, w)
         | Some dn \<Rightarrow>
             (case District_findOne (store w) (toUpperCase dn) sc of
                Some districtRecord \<Rightarrow>
                  (Some (whereClause\<lparr>where_districtCode := Some (fst districtRecord)\<rparr>), w)
              | None \<Rightarrow>
                  (case fetchDistrictData env (sname, fy, Some dn) w of
                     (Inl apiError, w1) \<Rightarrow> (None, w1)
                   | (Inr apiData, w1) \<Rightarrow>
                       if apiData \<noteq> [] then
                         (case store_records env apiData w1 of
                            (Inl apiError, w2) \<Rightarrow> (None, w2)
                          | (Inr stored, w2) \<Rightarrow>
                              (case District_findOne (store w2) (toUpperCase dn) sc of
                                 Some districtRecord \<Rightarrow>
                                   (Some (whereClause\<lparr>where_districtCode :=
                                                          Some (fst districtRecord)\<rparr>), w2)
                               | None \<Rightarrow> (None, w2)))
                       else (None, w1))))"

definition fallbackYears :: "string list" where
  "fallbackYears = [''2023-2024'', ''2022-2023'', ''2021-2022'']"

text \<open>
  The loop over the fallback years: each year is fetched for the whole state; the first year
  whose records are not empty and are stored without error ends the loop; an error of the
  call or of the storing is caught and the next year is tried.
\<close>

fun fallback_loop :: "environment \<Rightarrow> string \<Rightarrow> string list \<Rightarrow> world \<Rightarrow> world" where
  "fallback_loop env st [] w = w"
| "fallback_loop env st (fallbackYear # years) w =
     (case fetchDistrictData env (st, fallbackYear, None) w of
        (Inl fallbackError, w1) \<Rightarrow> fallback_loop env st years w1
      | (Inr fallbackData, w1) \<Rightarrow>
          if fallbackData \<noteq> [] then
            (case store_records env fallbackData w1 of
               (Inl fallbackError, w2) \<Rightarrow> fallback_loop env st years w2
             | (Inr stored, w2) \<Rightarrow> w2)
          else fallback_loop env st years w1)"

text \<open>
  Steps 1 and 2: the state is looked up by name; when it is missing, the requested period is
  fetched. Empty records lead to the fallback loop and then to one of the two not-found
  responses; records are stored and the state is looked up again. An error of the first call
  or of the storing gives 503. The result is a response that ends the request, or the state
  record (\<open>None\<close> when it is still missing).
\<close>

definition resolve_state ::
  "environment \<Rightarrow> string \<Rightarrow> string option \<Rightarrow> string \<Rightarrow> world
     \<Rightarrow> (response + (string \<times> string) option) \<times> world" where
  "resolve_state env st di fy w =
     (case State_findOne (store w) (toUpperCase st) of
        Some stateRecord \<Rightarrow> (Inr (Some stateRecord), w)
      | None \<Rightarrow>
          (case fetchDistrictData env (st, fy, di) w of
             (Inl apiError, w1) \<Rightarrow> (Inl upstream_unavailable, w1)
           | (Inr apiData, w1) \<Rightarrow>
               if apiData = [] then
                 (let w2 = fallback_loop env st fallbackYears w1
                  in case State_findOne (store w2) (toUpperCase st) of
                       None \<Rightarrow> (Inl (state_unknown_anywhere st), w2)
                     | Some stateRecord \<Rightarrow> (Inl (no_data_for_year st fy), w2))
               else
                 (case store_records env apiData w1 of
                    (Inl apiError, w2) \<Rightarrow> (Inl upstream_unavailable, w2)
                  | (Inr stored, w2) \<Rightarrow> (Inr (State_findOne (store w2) (toUpperCase st)), w2))))"

text \<open>
  Step 5: with no rows found, the requested period is fetched once more; records are stored,
  the where clause is rebuilt and the rows are read again. An error of the call or of the
  storing is caught and the rows stay empty.
\<close>

definition refetch ::
  "environment \<Rightarrow> string \<Rightarrow> string option \<Rightarrow> string \<Rightarrow> string option \<Rightarrow> string \<times> string \<Rightarrow> world
     \<Rightarrow> (response + (perf_key \<times> perf_row) list) \<times> world" where
  "refetch env st di fy mo stateRecord w =
     (case fetchDistrictData env (st, fy, di) w of
        (Inl apiError, w1) \<Rightarrow> (Inr [], w1)
      | (Inr apiData, w1) \<Rightarrow>
          if apiData \<noteq> [] then
            (case store_records env apiData w1 of
               (Inl apiError, w2) \<Rightarrow> (Inr [], w2)
             | (Inr stored, w2) \<Rightarrow>
                 (case buildWhereClause env fy mo di (fst stateRecord) (snd stateRecord) w2 of
                    (None, w3) \<Rightarrow>
                      (case truthy di of
                         Some dn \<Rightarrow> (Inl (district_not_found_after_fetch dn st), w3)
                       | None \<Rightarrow> (Inl internal_error, w3))
                  | (Some refetchWhereClause, w3) \<Rightarrow>
                      (Inr (fetchPerformanceData refetchWhereClause (fst stateRecord) (store w3)), w3)))
          else (Inr [], w1))"

definition getDistrictData :: "environment \<Rightarrow> request \<Rightarrow> world \<Rightarrow> response \<times> world" where
  "getDistrictData env req w =
     (case (truthy (q_state req), truthy (q_finYear req)) of
        (Some st, Some fy) \<Rightarrow>
          (case resolve_state env st (q_district req) fy w of
             (Inl res, w1) \<Rightarrow> (res, w1)
           | (Inr None, w1) \<Rightarrow> (state_not_found st, w1)
           | (Inr (Some stateRecord), w1) \<Rightarrow>
               (case buildWhereClause env fy (q_month req) (q_district req)
                       (fst stateRecord) (snd stateRecord) w1 of
                  (None, w2) \<Rightarrow>
                    (case truthy (q_district req) of
                       Some dn \<Rightarrow> (district_not_found dn st, w2)
                     | None \<Rightarrow> (internal_error, w2))
                | (Some whereClause, w2) \<Rightarrow>
                    (let rows = fetchPerformanceData whereClause (fst stateRecord) (store w2)
                     in if rows \<noteq> [] then (found rows, w2)
                        else
                          (case refetch env st (q_district req) fy (q_month req) stateRecord w2 of
                             (Inl res, w3) \<Rightarrow> (res, w3)
                           | (Inr rows', w3) \<Rightarrow>
                               if rows' = [] then (no_performance_data, w3)
                               else (found rows', w3)))))
      | _ \<Rightarrow> (missing_parameters, w))"

subsection \<open>Notions used to state the properties of a request\<close>

text \<open>\<open>w'\<close> comes from \<open>w\<close> by at most \<open>n\<close> further upstream calls.\<close>

definition at_most_calls :: "nat \<Rightarrow> world \<Rightarrow> world \<Rightarrow> bool" where
  "at_most_calls n w w' = (length (calls w') \<le> length (calls w) + n
                            \<and> take (length (calls w)) (calls w') = calls w)"

text \<open>
  The data of a request is fully present in a store: state and financial year are given, the
  state resolves, the district (when one is given) resolves within the state, and performance
  rows match.
\<close>

definition resolved_locally :: "database \<Rightarrow> request \<Rightarrow> bool" where
  "resolved_locally d req =
     (case (truthy (q_state req), truthy (q_finYear req)) of
        (Some st, Some fy) \<Rightarrow>
          (case State_findOne d (toUpperCase st) of
             None \<Rightarrow> False
           | Some stateRecord \<Rightarrow>
               (case truthy (q_district req) of
                  None \<Rightarrow>
                    fetchPerformanceData
                      \<lparr>where_finYear = fy, where_month = map_option toUpperCase (truthy (q_month req)),
                       where_districtCode = None\<rparr> (fst stateRecord) d \<noteq> []
                | Some dn \<Rightarrow>
                    (case District_findOne d (toUpperCase dn) (fst stateRecord) of
                       None \<Rightarrow> False
                     | Some districtRecord \<Rightarrow>
                         fetchPerformanceData
                           \<lparr>where_finYear = fy,
                            where_month = map_option toUpperCase (truthy (q_month req)),
                            where_districtCode = Some (fst districtRecord)\<rparr> (fst stateRecord) d
                         \<noteq> [])))
      | _ \<Rightarrow> False)"


text \<open>
  A scripted upstream for examples: the answers of the calls in the order they are made, and
  no records once the script is used up.
\<close>

definition scripted :: "(fetch_error + api_record list) list \<Rightarrow> nat \<Rightarrow> fetch_args
    \<Rightarrow> fetch_error + api_record list" where
  "scripted answers n args = (if n < length answers then answers ! n else Inr [])"

section \<open>District code derivation: results\<close>

lemma lt10_cases: "d < 10 \<Longrightarrow> d \<in> {0, 1, 2, 3, 4, 5, 6, 7, 8, 9::nat}"
  by auto

lemma digitValue_digitChar: "d < 10 \<Longrightarrow> digitValue (digitChar d) = d"
  by (drule lt10_cases) (auto simp: digitValue_def digitChar_def charCodeAt_def)

lemma isDigit_digitChar: "d < 10 \<Longrightarrow> isDigit (digitChar d)"
  by (drule lt10_cases) (auto simp: isDigit_def digitChar_def charCodeAt_def)

lemma decimalValue_snoc: "decimalValue (s @ [c]) = decimalValue s * 10 + digitValue c"
  by (simp add: decimalValue_def)

lemma decimalValue_toString: "decimalValue (toString n) = n"
proof (induction n rule: toString.induct)
  case (1 n)
  show ?case
  proof (cases "n < 10")
    case True
    then show ?thesis
      by (subst toString.simps) (simp add: decimalValue_def digitValue_digitChar)
  next
    case False
    with 1 have "decimalValue (toString (n div 10)) = n div 10" by simp
    with False show ?thesis
      by (subst toString.simps) (simp add: decimalValue_snoc digitValue_digitChar)
  qed
qed

lemma isDigit_toString: "list_all isDigit (toString n)"
proof (induction n rule: toString.induct)
  case (1 n)
  then show ?case
    by (subst toString.simps) (simp add: isDigit_digitChar)
qed

lemma length_toString: "n < 10 ^ k \<Longrightarrow> 0 < k \<Longrightarrow> length (toString n) \<le> k"
proof (induction n arbitrary: k rule: toString.induct)
  case (1 n)
  show ?case
  proof (cases "n < 10")
    case True
    with 1 show ?thesis by (subst toString.simps) simp
  next
    case False
    from False 1(2,3) obtain j where k: "k = Suc j" "0 < j"
      by (cases k; cases "k - 1") auto
    with 1(2) have "n div 10 < 10 ^ j"
      by (simp add: less_mult_imp_div_less mult.commute)
    with 1(1) False k have "length (toString (n div 10)) \<le> j" by simp
    with False k show ?thesis by (subst toString.simps) simp
  qed
qed

lemma decimalValue_zeros: "decimalValue (replicate k (CHR ''0'') @ s) = decimalValue s"
proof -
  have "foldl (\<lambda>a c. a * 10 + digitValue c) 0 (replicate k (CHR ''0'')) = 0"
    by (induction k) (simp_all add: digitValue_def charCodeAt_def)
  then show ?thesis by (simp add: decimalValue_def)
qed

lemma isDigit_zeros: "list_all isDigit (replicate k (CHR ''0''))"
  by (induction k) (simp_all add: isDigit_def charCodeAt_def)

lemma padStart_toString:
  assumes "n < 1000"
  shows "length (padStart 3 (CHR ''0'') (toString n)) = 3"
    and "list_all isDigit (padStart 3 (CHR ''0'') (toString n))"
    and "decimalValue (padStart 3 (CHR ''0'') (toString n)) = n"
proof -
  from assms have "length (toString n) \<le> 3"
    using length_toString [of n 3] by simp
  then show "length (padStart 3 (CHR ''0'') (toString n)) = 3"
    by (simp add: padStart_def)
  show "list_all isDigit (padStart 3 (CHR ''0'') (toString n))"
    by (simp add: padStart_def isDigit_toString isDigit_zeros)
  show "decimalValue (padStart 3 (CHR ''0'') (toString n)) = n"
    by (simp add: padStart_def decimalValue_zeros decimalValue_toString)
qed

text \<open>
  Claim C7. For a non-empty district name and a non-empty state code, the derived district
  code is the state code, then the first three characters of the name in upper case, then
  exactly three decimal digits whose value is the absolute value of the 32-bit hash of the name
  modulo 1000. The code is a function of the pair (name, state code) alone, so deriving it
  twice gives the same code.
\<close>

theorem generateDistrictCode_derivation:
  assumes "dname \<noteq> []" and "scode \<noteq> []"
  shows "\<exists>digits.
           generateDistrictCode (Some dname) scode =
             scode @ toUpperCase (take 3 dname) @ digits
         \<and> length digits = 3 \<and> list_all isDigit digits
         \<and> decimalValue digits = nat \<bar>hashCode dname\<bar> mod 1000"
proof -
  let ?h = "nat \<bar>hashCode dname\<bar> mod 1000"
  have "?h < 1000" by simp
  from padStart_toString [OF this] assms show ?thesis
    by (intro exI [of _ "padStart 3 (CHR ''0'') (toString ?h)"])
       (simp add: generateDistrictCode_def substring_def Let_def)
qed

theorem generateDistrictCode_derivation_witness:
  "generateDistrictCode (Some ''Palakkad'') ''KL'' = ''KLPAL585''
   \<and> (\<exists>digits. generateDistrictCode (Some ''Palakkad'') ''KL''
                  = ''KL'' @ toUpperCase (take 3 ''Palakkad'') @ digits
         \<and> length digits = 3 \<and> list_all isDigit digits
         \<and> decimalValue digits = nat \<bar>hashCode ''Palakkad''\<bar> mod 1000)"
proof
  show "generateDistrictCode (Some ''Palakkad'') ''KL'' = ''KLPAL585''"
    by (simp add: generateDistrictCode_def hashCode_def charCodeAt_def substring_def
        toUpperCase_def toUpperChar_def padStart_def toString.simps digitChar_def)
  show "\<exists>digits. generateDistrictCode (Some ''Palakkad'') ''KL''
                  = ''KL'' @ toUpperCase (take 3 ''Palakkad'') @ digits
         \<and> length digits = 3 \<and> list_all isDigit digits
         \<and> decimalValue digits = nat \<bar>hashCode ''Palakkad''\<bar> mod 1000"
    using generateDistrictCode_derivation [of "''Palakkad''" "''KL''"] by simp
qed

section \<open>Reporting periods: results\<close>












section \<open>Performance score: results\<close>







section \<open>Ratio helpers: results\<close>







section \<open>District comparison: results\<close>


lemma count_insert_cmp:
  "length (filter P (insert_cmp cmp x ys)) = length (filter P (x # ys))"
  by (induction ys) auto



lemma count_sort_cmp: "length (filter P (sort_cmp cmp xs)) = length (filter P xs)"
  by (induction xs) (simp_all add: sort_cmp_def count_insert_cmp)

lemma length_sort_cmp: "length (sort_cmp cmp xs) = length xs"
  using count_sort_cmp [of "\<lambda>_. True" cmp xs] by simp


lemma indexOf_nonneg: "v \<in> set xs \<Longrightarrow> 0 \<le> indexOf xs v"
  by (induction xs) (auto simp: Let_def)








section \<open>Reconciliation: results\<close>

subsection \<open>Running the transaction\<close>

lemma write_states_Nil: "write_states [] db = db"
  by (simp add: write_states_def updateOnDuplicate_def)

lemma write_districts_Nil: "write_districts [] db = Inr db"
  by (simp add: write_districts_def updateOnDuplicate_def)

lemma write_finYears_Nil: "write_finYears [] db = Inr db"
  by (simp add: write_finYears_def updateOnDuplicate_def)

lemma write_performance_Nil: "write_performance [] db = Inr ([], db)"
  by (simp add: write_performance_def)

lemma write_extended_Nil: "write_extended [] db = Inr db"
  by (simp add: write_extended_def)

text \<open>Each step: its effect on the working copy and on the journal.\<close>

lemma bulkUpsertStates_run:
  "bulkUpsertStates rows t =
     (Inr (), \<lparr>work = write_states rows (work t),
               journal = journal t @ (if rows = [] then [] else [State])\<rparr>)"
  by (simp add: bulkUpsertStates_def statement_def write_states_Nil)

lemma bulkUpsertDistricts_run:
  "bulkUpsertDistricts rows t =
     (case write_districts rows (work t) of
        Inl e \<Rightarrow> (Inl e, \<lparr>work = work t, journal = journal t @ [District]\<rparr>)
      | Inr db \<Rightarrow> (Inr (), \<lparr>work = db, journal = journal t @ (if rows = [] then [] else [District])\<rparr>))"
  by (simp add: bulkUpsertDistricts_def statement_def write_districts_Nil split: sum.splits)

lemma bulkUpsertFinancialYears_run:
  "bulkUpsertFinancialYears rows t =
     (case write_finYears rows (work t) of
        Inl e \<Rightarrow> (Inl e, \<lparr>work = work t, journal = journal t @ [FinancialYear]\<rparr>)
      | Inr db \<Rightarrow> (Inr (), \<lparr>work = db, journal = journal t @ (if rows = [] then [] else [FinancialYear])\<rparr>))"
  by (simp add: bulkUpsertFinancialYears_def statement_def write_finYears_Nil split: sum.splits)

lemma bulkUpsertPerformance_run:
  "bulkUpsertPerformance rows t =
     (case write_performance rows (work t) of
        Inl e \<Rightarrow> (Inl e, \<lparr>work = work t, journal = journal t @ [DistrictPerformance]\<rparr>)
      | Inr (insts, db) \<Rightarrow>
          (Inr insts, \<lparr>work = db, journal = journal t @ (if rows = [] then [] else [DistrictPerformance])\<rparr>))"
  by (simp add: bulkUpsertPerformance_def statement_def write_performance_Nil split: sum.splits)

lemma bulkUpsertExtendedMetrics_run:
  "bulkUpsertExtendedMetrics insts b t =
     (case write_extended insts (work t) of
        Inl e \<Rightarrow> (Inl e, \<lparr>work = work t, journal = journal t @ [DistrictExtendedMetrics]\<rparr>)
      | Inr db \<Rightarrow>
          (Inr (), \<lparr>work = db, journal = journal t @ (if insts = [] then [] else [DistrictExtendedMetrics])\<rparr>))"
  by (simp add: bulkUpsertExtendedMetrics_def statement_def write_extended_Nil split: sum.splits)

lemma fold_grows_nonempty:
  assumes "\<And>x m. m \<noteq> [] \<Longrightarrow> step x m \<noteq> []"
  shows "m \<noteq> [] \<Longrightarrow> fold step xs m \<noteq> []"
  using assms by (induction xs arbitrary: m) simp_all

lemma extractUniqueStates_nonempty: "b \<noteq> [] \<Longrightarrow> extractUniqueStates b \<noteq> []"
proof (cases b)
  case (Cons r rs)
  have "fold (\<lambda>record statesMap.
                      (let stateName = upper_or_empty (state_name record)
                       in set_if_absent stateName (record_stateCode record, stateName) statesMap))
          rs [(upper_or_empty (state_name r), (record_stateCode r, upper_or_empty (state_name r)))] \<noteq> []"
    by (rule fold_grows_nonempty) (simp_all add: set_if_absent_def Let_def)
  then show ?thesis
    by (simp add: Cons extractUniqueStates_def set_if_absent_def keys_def Let_def)
qed simp

lemma extractUniqueDistricts_nonempty: "b \<noteq> [] \<Longrightarrow> extractUniqueDistricts b \<noteq> []"
proof (cases b)
  case (Cons r rs)
  have "fold (\<lambda>record districtsMap.
                      (let districtCode = record_districtCode record
                       in set_if_absent districtCode
                            (districtCode,
                             \<lparr>districtName = upper_or_empty (district_name record),
                              stateCode = record_stateCode record\<rparr>)
                            districtsMap))
          rs [(record_districtCode r, (record_districtCode r,
                 \<lparr>districtName = upper_or_empty (district_name r), stateCode = record_stateCode r\<rparr>))] \<noteq> []"
    by (rule fold_grows_nonempty) (simp_all add: set_if_absent_def Let_def)
  then show ?thesis
    by (simp add: Cons extractUniqueDistricts_def set_if_absent_def keys_def Let_def)
qed simp

lemma extractUniqueFinYears_nonempty: "b \<noteq> [] \<Longrightarrow> extractUniqueFinYears cy b \<noteq> []"
proof (cases b)
  case (Cons r rs)
  have "fold (\<lambda>record finYearsMap.
                      (let finYear = or_text (fin_year record) []
                       in if finYear \<in> set (keys finYearsMap) then finYearsMap
                          else finYearsMap
                                 @ [(finYear, (finYear, parseFinancialYear cy (Some finYear)))]))
          rs [(or_text (fin_year r) [], (or_text (fin_year r) [],
                 parseFinancialYear cy (Some (or_text (fin_year r) []))))] \<noteq> []"
    by (rule fold_grows_nonempty) (simp_all add: Let_def)
  then show ?thesis
    by (simp add: Cons extractUniqueFinYears_def keys_def Let_def)
qed simp

lemma extract_Nil:
  "extractUniqueStates [] = []" "extractUniqueDistricts [] = []"
  "extractUniqueFinYears cy [] = []" "preparePerformanceRecords [] = []"
  by (simp_all add: extractUniqueStates_def extractUniqueDistricts_def extractUniqueFinYears_def
      preparePerformanceRecords_def)

lemma preparePerformanceRecords_nonempty: "b \<noteq> [] \<Longrightarrow> preparePerformanceRecords b \<noteq> []"
  by (simp add: preparePerformanceRecords_def)

lemma upsert_performances_keys:
  "upsert_performances rows s = (insts, s') \<Longrightarrow> map fst insts = map fst rows"
  by (induction rows arbitrary: s insts s') (auto split: prod.splits)

lemma write_performance_insts:
  "write_performance rows db = Inr (insts, db') \<Longrightarrow> length insts = length rows"
  by (auto simp: write_performance_def split: option.splits prod.splits
      dest!: upsert_performances_keys dest: arg_cong [where f = length])

lemma try_block_run:
  "try_block cy b \<lparr>work = db, journal = []\<rparr> =
     (case ingest_db cy b db of
        Inr (insts, db') \<Rightarrow> (Inr insts, \<lparr>work = db', journal = (if b = [] then [] else all_models)\<rparr>)
      | Inl e \<Rightarrow> (Inl e, snd (try_block cy b \<lparr>work = db, journal = []\<rparr>)))"
proof (cases "b = []")
  case True
  then show ?thesis
    by (simp add: try_block_def ingest_db_def bind_tx_def return_tx_def extract_Nil
        bulkUpsertStates_run bulkUpsertDistricts_run bulkUpsertFinancialYears_run
        bulkUpsertPerformance_run bulkUpsertExtendedMetrics_run
        write_states_Nil write_districts_Nil write_finYears_Nil write_performance_Nil write_extended_Nil)
next
  case False
  then have ne: "extractUniqueStates b \<noteq> []" "extractUniqueDistricts b \<noteq> []"
    "extractUniqueFinYears cy b \<noteq> []" "preparePerformanceRecords b \<noteq> []"
    by (simp_all add: extractUniqueStates_nonempty extractUniqueDistricts_nonempty
        extractUniqueFinYears_nonempty preparePerformanceRecords_nonempty)
  have insts: "insts \<noteq> []" if "write_performance (preparePerformanceRecords b) d = Inr (insts, d')"
    for d insts d'
    using write_performance_insts [OF that] ne(4) by auto
  show ?thesis
    using False ne
    by (auto simp: try_block_def ingest_db_def bind_tx_def return_tx_def all_models_def
        bulkUpsertStates_run bulkUpsertDistricts_run bulkUpsertFinancialYears_run
        bulkUpsertPerformance_run bulkUpsertExtendedMetrics_run
        split: sum.splits prod.splits dest: insts)
qed

lemma try_block_journal:
  "journal (snd (try_block cy b \<lparr>work = db, journal = []\<rparr>))
     = take (length (journal (snd (try_block cy b \<lparr>work = db, journal = []\<rparr>)))) all_models"
proof (cases "b = []")
  case True
  then show ?thesis
    by (simp add: try_block_def bind_tx_def return_tx_def extract_Nil
        bulkUpsertStates_run bulkUpsertDistricts_run bulkUpsertFinancialYears_run
        bulkUpsertPerformance_run bulkUpsertExtendedMetrics_run
        write_states_Nil write_districts_Nil write_finYears_Nil write_performance_Nil write_extended_Nil)
next
  case False
  then have ne: "extractUniqueStates b \<noteq> []" "extractUniqueDistricts b \<noteq> []"
    "extractUniqueFinYears cy b \<noteq> []" "preparePerformanceRecords b \<noteq> []"
    by (simp_all add: extractUniqueStates_nonempty extractUniqueDistricts_nonempty
        extractUniqueFinYears_nonempty preparePerformanceRecords_nonempty)
  have insts: "insts \<noteq> []" if "write_performance (preparePerformanceRecords b) d = Inr (insts, d')"
    for d insts d'
    using write_performance_insts [OF that] ne(4) by auto
  show ?thesis
    using False ne
    by (auto simp: try_block_def bind_tx_def return_tx_def all_models_def
        bulkUpsertStates_run bulkUpsertDistricts_run bulkUpsertFinancialYears_run
        bulkUpsertPerformance_run bulkUpsertExtendedMetrics_run
        split: sum.splits prod.splits dest: insts)
qed

subsection \<open>Atomicity and order\<close>

lemma processAndStoreDataBulk_ingest_db:
  "outcome (processAndStoreDataBulk cy b db)
     = (case ingest_db cy b db of Inl e \<Rightarrow> Inl e | Inr (insts, db') \<Rightarrow> Inr insts)"
  "storage (processAndStoreDataBulk cy b db)
     = (case ingest_db cy b db of Inl e \<Rightarrow> db | Inr (insts, db') \<Rightarrow> db')"
  "statements (processAndStoreDataBulk cy b db)
     = journal (snd (try_block cy b \<lparr>work = db, journal = []\<rparr>))"
  using try_block_run [of cy b db]
  by (auto simp: processAndStoreDataBulk_def begin_transaction_def commit_def rollback_def
      split: sum.splits prod.splits)

text \<open>
  Claim C3. The statements of one call are issued in the fixed order State, District,
  FinancialYear, DistrictPerformance, DistrictExtendedMetrics inside one transaction: the
  journal of the call is always a prefix of that list, and it is the whole list when a
  non-empty batch succeeds. When the call throws, the error is the one raised by the failing
  statement and the store is exactly the store before the call; when it returns, the store is
  the one the five statements produced.
\<close>

theorem processAndStoreDataBulk_atomic:
  "statements (processAndStoreDataBulk cy b db)
     = take (length (statements (processAndStoreDataBulk cy b db))) all_models
   \<and> (\<forall>e. outcome (processAndStoreDataBulk cy b db) = Inl e \<longrightarrow>
          storage (processAndStoreDataBulk cy b db) = db \<and> ingest_db cy b db = Inl e)
   \<and> (\<forall>insts. outcome (processAndStoreDataBulk cy b db) = Inr insts \<longrightarrow>
          ingest_db cy b db = Inr (insts, storage (processAndStoreDataBulk cy b db))
          \<and> (b \<noteq> [] \<longrightarrow> statements (processAndStoreDataBulk cy b db) = all_models))"
proof (intro conjI allI impI)
  show "statements (processAndStoreDataBulk cy b db)
     = take (length (statements (processAndStoreDataBulk cy b db))) all_models"
    unfolding processAndStoreDataBulk_ingest_db(3) by (rule try_block_journal)
next
  fix e assume "outcome (processAndStoreDataBulk cy b db) = Inl e"
  then show "storage (processAndStoreDataBulk cy b db) = db" "ingest_db cy b db = Inl e"
    by (auto simp: processAndStoreDataBulk_ingest_db split: sum.splits)
next
  fix insts assume ok: "outcome (processAndStoreDataBulk cy b db) = Inr insts"
  then show "ingest_db cy b db = Inr (insts, storage (processAndStoreDataBulk cy b db))"
    by (auto simp: processAndStoreDataBulk_ingest_db split: sum.splits)
  assume "b \<noteq> []"
  with ok show "statements (processAndStoreDataBulk cy b db) = all_models"
    using try_block_run [of cy b db]
    by (auto simp: processAndStoreDataBulk_ingest_db split: sum.splits)
qed


text \<open>Unfolding everything the reconciliation of a concrete batch runs through.\<close>

lemmas eval_simps = processAndStoreDataBulk_def try_block_def bind_tx_def return_tx_def
  bulkUpsertStates_def bulkUpsertDistricts_def bulkUpsertFinancialYears_def bulkUpsertPerformance_def
  bulkUpsertExtendedMetrics_def write_states_def write_districts_def write_finYears_def write_performance_def
  write_extended_def district_check_def finYear_check_def performance_check_def extended_check_def
  stored_key_def performance_ids_def ids_def insert_ignore_def upsert_performance_def updateOnDuplicate_def
  keys_def statement_def begin_transaction_def commit_def rollback_def
  extractUniqueStates_def extractUniqueDistricts_def extractUniqueFinYears_def preparePerformanceRecords_def
  prepared_month_def prepared_fields_def set_if_absent_def record_stateCode_def record_districtCode_def
  generateStateCode_def stateCodeMap_def upper_or_empty_def or_text_def or_zero_def empty_record_def
  generateDistrictCode_def hashCode_def charCodeAt_def substring_def toUpperCase_def toUpperChar_def
  padStart_def toString.simps digitChar_def
  parseFinancialYear_def str_includes_def element_def parseInt_opt_def parseInt_def isWhiteSpace_def
  radixDigit_def radixValue_def Let_def empty_database_def

theorem processAndStoreDataBulk_atomic_witness:
  "outcome (processAndStoreDataBulk 2026
      [empty_record\<lparr>state_name := Some ''Kerala'', district_name := Some ''Palakkad'',
                     fin_year := Some ''2024-2025'', month := Some ''Dec''\<rparr>,
       empty_record\<lparr>state_name := Some ''Kerala'', district_name := Some ''Idukki'',
                     fin_year := Some ''2024-2025''\<rparr>] empty_database)
     = Inl (NotNullViolation DistrictPerformance)
   \<and> statements (processAndStoreDataBulk 2026
      [empty_record\<lparr>state_name := Some ''Kerala'', district_name := Some ''Palakkad'',
                     fin_year := Some ''2024-2025'', month := Some ''Dec''\<rparr>,
       empty_record\<lparr>state_name := Some ''Kerala'', district_name := Some ''Idukki'',
                     fin_year := Some ''2024-2025''\<rparr>] empty_database)
     = [State, District, FinancialYear, DistrictPerformance]
   \<and> storage (processAndStoreDataBulk 2026
      [empty_record\<lparr>state_name := Some ''Kerala'', district_name := Some ''Palakkad'',
                     fin_year := Some ''2024-2025'', month := Some ''Dec''\<rparr>,
       empty_record\<lparr>state_name := Some ''Kerala'', district_name := Some ''Idukki'',
                     fin_year := Some ''2024-2025''\<rparr>] empty_database)
     = empty_database"
proof -
  let ?r = "processAndStoreDataBulk 2026
      [empty_record\<lparr>state_name := Some ''Kerala'', district_name := Some ''Palakkad'',
                     fin_year := Some ''2024-2025'', month := Some ''Dec''\<rparr>,
       empty_record\<lparr>state_name := Some ''Kerala'', district_name := Some ''Idukki'',
                     fin_year := Some ''2024-2025''\<rparr>] empty_database"
  have failed: "outcome ?r = Inl (NotNullViolation DistrictPerformance)"
    by (simp add: eval_simps)
  have stmts: "statements ?r = [State, District, FinancialYear, DistrictPerformance]"
    by (simp add: eval_simps)
  from processAndStoreDataBulk_atomic [of 2026 _ empty_database] failed
  have "storage ?r = empty_database" by blast
  with failed stmts show ?thesis by simp
qed

text \<open>The example batch on the empty store.\<close>

lemma example_ingest:
  "processAndStoreDataBulk 2026 example_batch empty_database =
     \<lparr>outcome =
        Inr [((''1601'', ''2024-2025'', ''DEC''),
              \<lparr>perf_id = 1, metric_fields = default_fields\<lparr>totalHouseholdsWorked := 12\<rparr>,
               performanceScore = 0, performanceGrade = None\<rparr>),
             ((''1602'', ''2024-2025'', ''DEC''),
              \<lparr>perf_id = 2, metric_fields = default_fields\<lparr>totalHouseholdsWorked := 7\<rparr>,
               performanceScore = 0, performanceGrade = None\<rparr>),
             ((''1601'', ''2024-2025'', ''DEC''),
              \<lparr>perf_id = 1, metric_fields = default_fields\<lparr>totalHouseholdsWorked := 15\<rparr>,
               performanceScore = 0, performanceGrade = None\<rparr>)],
      storage =
        \<lparr>State_rows = [(''KL'', ''KERALA'')],
         District_rows =
           [(''1601'', \<lparr>districtName = ''PALAKKAD'', stateCode = ''KL''\<rparr>),
            (''1602'', \<lparr>districtName = ''IDUKKI'', stateCode = ''KL''\<rparr>)],
         FinancialYear_rows = [(''2024-2025'', \<lparr>startYear = Some 2024, endYear = Some 2025\<rparr>)],
         DistrictPerformance_rows =
           [((''1601'', ''2024-2025'', ''DEC''),
             \<lparr>perf_id = 1, metric_fields = default_fields\<lparr>totalHouseholdsWorked := 15\<rparr>,
              performanceScore = 0, performanceGrade = None\<rparr>),
            ((''1602'', ''2024-2025'', ''DEC''),
             \<lparr>perf_id = 2, metric_fields = default_fields\<lparr>totalHouseholdsWorked := 7\<rparr>,
              performanceScore = 0, performanceGrade = None\<rparr>)],
         DistrictPerformance_next_id = 3,
         DistrictExtendedMetrics_rows =
           [(1, \<lparr>ext_id = 1, indicators = zero_indicators\<rparr>),
            (2, \<lparr>ext_id = 2, indicators = zero_indicators\<rparr>)],
         DistrictExtendedMetrics_next_id = 3\<rparr>,
      statements = all_models\<rparr>"
  by (simp add: eval_simps example_batch_def default_fields_def all_models_def)


subsection \<open>Tables\<close>

lemma first_error_None: "first_error check rows = None \<longleftrightarrow> (\<forall>r\<in>set rows. check r = None)"
  by (induction rows) (auto split: option.splits)

lemma set_update_subset: "set (AList.update k v al) \<subseteq> insert (k, v) (set al)"
  by (induction al) auto

lemma keys_update: "set (keys (AList.update k v al)) = insert k (set (keys al))"
  using dom_update [of k v al] by (simp add: keys_def)

lemma updateOnDuplicate_Cons:
  "updateOnDuplicate ((k, v) # rows) tbl = updateOnDuplicate rows (AList.update k v tbl)"
  by (simp add: updateOnDuplicate_def)

lemma updateOnDuplicate_Nil: "updateOnDuplicate [] tbl = tbl"
  by (simp add: updateOnDuplicate_def)

lemma set_updateOnDuplicate: "set (updateOnDuplicate rows tbl) \<subseteq> set tbl \<union> set rows"
proof (induction rows arbitrary: tbl)
  case Nil
  then show ?case by (simp add: updateOnDuplicate_Nil)
next
  case (Cons r rows)
  obtain k v where r: "r = (k, v)" by (cases r)
  have "set (updateOnDuplicate rows (AList.update k v tbl)) \<subseteq> set (AList.update k v tbl) \<union> set rows"
    by (rule Cons.IH)
  also have "\<dots> \<subseteq> insert (k, v) (set tbl) \<union> set rows"
    using set_update_subset [of k v tbl] by blast
  finally show ?case
    unfolding r updateOnDuplicate_Cons by auto
qed

lemma keys_updateOnDuplicate:
  "set (keys (updateOnDuplicate rows tbl)) = set (keys tbl) \<union> set (keys rows)"
proof (induction rows arbitrary: tbl)
  case Nil
  then show ?case by (simp add: updateOnDuplicate_Nil keys_def)
next
  case (Cons r rows)
  obtain k v where r: "r = (k, v)" by (cases r)
  have "set (keys (updateOnDuplicate rows (AList.update k v tbl)))
      = set (keys (AList.update k v tbl)) \<union> set (keys rows)"
    by (rule Cons.IH)
  also have "\<dots> = insert k (set (keys tbl)) \<union> set (keys rows)"
    by (simp only: keys_update)
  also have "\<dots> = set (keys tbl) \<union> set (keys ((k, v) # rows))"
    by (simp add: keys_def)
  finally show ?case
    unfolding r updateOnDuplicate_Cons .
qed

lemma map_update_preserved:
  assumes "map_of al k = Some v" and "g v' = g v"
  shows "map (\<lambda>row. g (snd row)) (AList.update k v' al) = map (\<lambda>row. g (snd row)) al"
  using assms by (induction al) (auto split: if_splits)

lemma map_of_snoc_fresh:
  "map_of al k = None \<Longrightarrow> map_of (al @ [(k, v)]) = (map_of al)(k \<mapsto> v)"
  by (rule ext) (auto simp: map_add_def split: option.splits)

lemma upsert_performance_spec:
  assumes "upsert_performance k f (tbl, n) = (row, tbl', n')"
  shows "map_of tbl' = (map_of tbl)(k \<mapsto> row)"
    and "metric_fields row = f"
    and "set (keys tbl') = insert k (set (keys tbl))"
    and "set (ids tbl) \<subseteq> set (ids tbl')"
    and "perf_id row \<in> set (ids tbl')"
proof -
  show "map_of tbl' = (map_of tbl)(k \<mapsto> row)"
    using assms
    by (auto simp: upsert_performance_def update_conv' map_of_snoc_fresh Let_def
        simp del: map_of_append split: option.splits)
  show "metric_fields row = f"
    using assms by (auto simp: upsert_performance_def Let_def split: option.splits)
  show "set (keys tbl') = insert k (set (keys tbl))"
    using assms
    by (auto simp: upsert_performance_def Let_def keys_update split: option.splits)
       (auto simp: keys_def)
  show "set (ids tbl) \<subseteq> set (ids tbl')"
  proof (cases "map_of tbl k")
    case None
    with assms show ?thesis by (auto simp: upsert_performance_def Let_def ids_def)
  next
    case (Some old)
    with assms have "tbl' = AList.update k (old\<lparr>metric_fields := f\<rparr>) tbl"
      by (auto simp: upsert_performance_def)
    with map_update_preserved [OF Some, of perf_id "old\<lparr>metric_fields := f\<rparr>"]
    show ?thesis by (simp add: ids_def)
  qed
  show "perf_id row \<in> set (ids tbl')"
  proof -
    have "map_of tbl' k = Some row"
      using \<open>map_of tbl' = (map_of tbl)(k \<mapsto> row)\<close> by simp
    then have "(k, row) \<in> set tbl'" by (rule map_of_SomeD)
    then show ?thesis by (force simp: ids_def)
  qed
qed

lemma upsert_performances_spec:
  assumes "upsert_performances rows (tbl, n) = (insts, tbl', n')"
  shows "set (keys tbl') = set (keys tbl) \<union> set (keys rows)"
    and "set (ids tbl) \<subseteq> set (ids tbl')"
    and "set (ids insts) \<subseteq> set (ids tbl')"
  using assms
proof (induction rows arbitrary: tbl n insts tbl' n')
  case Nil
  case 1 then show ?case by (simp add: keys_def)
  case 2 then show ?case by simp
  case 3 then show ?case by (simp add: ids_def)
next
  case (Cons r rows)
  obtain k f where r: "r = (k, f)" by (cases r)
  {
    fix tbl n insts tbl' n'
    assume run: "upsert_performances (r # rows) (tbl, n) = (insts, tbl', n')"
    obtain row tbl1 n1 where one: "upsert_performance k f (tbl, n) = (row, tbl1, n1)"
      by (metis prod_cases3)
    obtain insts0 where rest: "upsert_performances rows (tbl1, n1) = (insts0, tbl', n')"
      and insts: "insts = (k, row) # insts0"
      using run one by (auto simp: r split: prod.splits)
    note s1 = upsert_performance_spec [OF one]
    note IH = Cons.IH [OF rest]
    have "set (keys tbl') = set (keys tbl) \<union> set (keys (r # rows))"
      using IH(1) s1(3) by (auto simp: r keys_def)
    moreover have "set (ids tbl) \<subseteq> set (ids tbl')"
      using IH(2) s1(4) by blast
    moreover have "set (ids insts) \<subseteq> set (ids tbl')"
      using IH(2,3) s1(5) by (auto simp: insts ids_def)
    ultimately have "set (keys tbl') = set (keys tbl) \<union> set (keys (r # rows))
      \<and> set (ids tbl) \<subseteq> set (ids tbl') \<and> set (ids insts) \<subseteq> set (ids tbl')"
      by simp
  }
  note step = this
  case 1 then show ?case using step by blast
  case 2 then show ?case using step by blast
  case 3 then show ?case using step by blast
qed

subsection \<open>Referential integrity\<close>

lemma insert_ignore_keys:
  "set (keys (fst (insert_ignore p ind s))) = insert p (set (keys (fst s)))"
  by (auto simp: insert_ignore_def keys_def)

lemma fold_insert_ignore_keys:
  "set (keys (fst (fold (\<lambda>p. insert_ignore p ind) ps s))) = set (keys (fst s)) \<union> set ps"
  by (induction ps arbitrary: s) (auto simp: insert_ignore_keys)

lemma integrity_write_states:
  "referential_integrity db \<Longrightarrow> referential_integrity (write_states rows db)"
  by (auto simp: referential_integrity_def write_states_def performance_ids_def
      keys_updateOnDuplicate list_all_iff)

lemma integrity_write_districts:
  assumes "referential_integrity db" and "write_districts rows db = Inr db'"
  shows "referential_integrity db'"
proof -
  from assms(2) have checked: "\<forall>r\<in>set rows. stateCode (snd r) \<in> set (keys (State_rows db))"
    and db': "db' = db\<lparr>District_rows := updateOnDuplicate rows (District_rows db)\<rparr>"
    by (auto simp: write_districts_def first_error_None district_check_def
        split: option.splits if_splits)
  have "\<forall>r\<in>set (updateOnDuplicate rows (District_rows db)).
          stateCode (snd r) \<in> set (keys (State_rows db))"
    using set_updateOnDuplicate [of rows "District_rows db"] checked assms(1)
    by (auto simp: referential_integrity_def list_all_iff)
  with assms(1) show ?thesis
    by (auto simp: db' referential_integrity_def performance_ids_def keys_updateOnDuplicate
        list_all_iff)
qed

lemma integrity_write_finYears:
  assumes "referential_integrity db" and "write_finYears rows db = Inr db'"
  shows "referential_integrity db'"
proof -
  from assms(2) have db': "db' = db\<lparr>FinancialYear_rows := updateOnDuplicate rows (FinancialYear_rows db)\<rparr>"
    by (auto simp: write_finYears_def split: option.splits)
  with assms(1) show ?thesis
    by (auto simp: db' referential_integrity_def performance_ids_def keys_updateOnDuplicate
        list_all_iff)
qed

lemma integrity_write_performance:
  assumes "referential_integrity db" and "write_performance rows db = Inr (insts, db')"
  shows "referential_integrity db'" and "set (ids insts) \<subseteq> set (performance_ids db')"
proof -
  from assms(2) obtain tbl n where
    checked: "\<forall>r\<in>set rows. performance_check db r = None"
    and run: "upsert_performances (map (\<lambda>(k, f). (stored_key k, f)) rows)
                (DistrictPerformance_rows db, DistrictPerformance_next_id db) = (insts, tbl, n)"
    and db': "db' = db\<lparr>DistrictPerformance_rows := tbl, DistrictPerformance_next_id := n\<rparr>"
    by (auto simp: write_performance_def first_error_None split: option.splits prod.splits)
  note spec = upsert_performances_spec [OF run]
  have new_keys: "fst k \<in> set (keys (District_rows db))
                \<and> fst (snd k) \<in> set (keys (FinancialYear_rows db))"
    if "k \<in> set (keys (map (\<lambda>(k, f). (stored_key k, f)) rows))" for k
  proof -
    from that obtain dc fy m f where "((dc, fy, m), f) \<in> set rows" and "k = stored_key (dc, fy, m)"
      by (auto simp: keys_def)
    with checked show ?thesis
      by (auto simp: performance_check_def stored_key_def split: if_splits)
  qed
  have "\<forall>r\<in>set tbl. fst (fst r) \<in> set (keys (District_rows db))
                \<and> fst (snd (fst r)) \<in> set (keys (FinancialYear_rows db))"
  proof
    fix r assume "r \<in> set tbl"
    then have "fst r \<in> set (keys tbl)" by (simp add: keys_def)
    with spec(1) consider "fst r \<in> set (keys (DistrictPerformance_rows db))"
      | "fst r \<in> set (keys (map (\<lambda>(k, f). (stored_key k, f)) rows))" by blast
    then show "fst (fst r) \<in> set (keys (District_rows db))
                \<and> fst (snd (fst r)) \<in> set (keys (FinancialYear_rows db))"
    proof cases
      case 1
      then obtain r0 where "r0 \<in> set (DistrictPerformance_rows db)" "fst r0 = fst r"
        by (auto simp: keys_def)
      with assms(1) show ?thesis
        by (auto simp: referential_integrity_def list_all_iff)
    next
      case 2
      then show ?thesis by (rule new_keys)
    qed
  qed
  with assms(1) spec(2) show "referential_integrity db'"
    by (auto simp: db' referential_integrity_def performance_ids_def list_all_iff)
  from spec(3) show "set (ids insts) \<subseteq> set (performance_ids db')"
    by (simp add: db' performance_ids_def)
qed

lemma integrity_write_extended:
  assumes "referential_integrity db" and "write_extended insts db = Inr db'"
  shows "referential_integrity db'"
proof -
  from assms(2) obtain tbl n where
    checked: "\<forall>p\<in>set (ids insts). p \<in> set (performance_ids db)"
    and run: "fold (\<lambda>p. insert_ignore p zero_indicators) (ids insts)
                (DistrictExtendedMetrics_rows db, DistrictExtendedMetrics_next_id db) = (tbl, n)"
    and db': "db' = db\<lparr>DistrictExtendedMetrics_rows := tbl, DistrictExtendedMetrics_next_id := n\<rparr>"
    by (auto simp: write_extended_def first_error_None extended_check_def ids_def Let_def
        split: option.splits prod.splits if_splits)
  from fold_insert_ignore_keys [of zero_indicators "ids insts"
      "(DistrictExtendedMetrics_rows db, DistrictExtendedMetrics_next_id db)"] run
  have "set (keys tbl) = set (keys (DistrictExtendedMetrics_rows db)) \<union> set (ids insts)"
    by simp
  moreover have "\<forall>r\<in>set (DistrictExtendedMetrics_rows db). fst r \<in> set (performance_ids db)"
    using assms(1) by (simp add: referential_integrity_def list_all_iff)
  ultimately have "\<forall>k\<in>set (keys tbl). k \<in> set (performance_ids db)"
    using checked by (auto simp: keys_def)
  then have "\<forall>r\<in>set tbl. fst r \<in> set (performance_ids db)"
    by (simp add: keys_def)
  with assms(1) show ?thesis
    by (auto simp: db' referential_integrity_def performance_ids_def list_all_iff)
qed

text \<open>
  Claim C4. When the store satisfies referential integrity and a call of
  \<open>processAndStoreDataBulk\<close> returns, the committed store satisfies it again: every district
  row's state code is the key of a state row, every performance row's district code and
  financial year are keys of a district row and of a financial year row, and every extended
  metrics row's \<open>performanceId\<close> is the \<open>id\<close> of a performance row. The parent rows are
  written first and the store rejects a child row whose parent is missing, so the batch is
  committed with all its references resolved or not at all.
\<close>

theorem ingest_referential_integrity:
  assumes "referential_integrity db"
    and "outcome (processAndStoreDataBulk cy b db) = Inr insts"
  shows "referential_integrity (storage (processAndStoreDataBulk cy b db))"
proof -
  from assms(2) obtain db' where run: "ingest_db cy b db = Inr (insts, db')"
    and st: "storage (processAndStoreDataBulk cy b db) = db'"
    by (auto simp: processAndStoreDataBulk_ingest_db split: sum.splits)
  from run obtain db2 db3 db4 where
    s2: "write_districts (extractUniqueDistricts b) (write_states (extractUniqueStates b) db) = Inr db2"
    and s3: "write_finYears (extractUniqueFinYears cy b) db2 = Inr db3"
    and s4: "write_performance (preparePerformanceRecords b) db3 = Inr (insts, db4)"
    and s5: "write_extended insts db4 = Inr db'"
    by (auto simp: ingest_db_def split: sum.splits)
  from assms(1) have "referential_integrity (write_states (extractUniqueStates b) db)"
    by (rule integrity_write_states)
  then have "referential_integrity db2" using s2 by (rule integrity_write_districts)
  then have "referential_integrity db3" using s3 by (rule integrity_write_finYears)
  then have "referential_integrity db4" using s4 by (rule integrity_write_performance(1))
  then have "referential_integrity db'" using s5 by (rule integrity_write_extended)
  then show ?thesis by (simp add: st)
qed


theorem ingest_referential_integrity_witness:
  "referential_integrity empty_database
   \<and> State_rows (storage (processAndStoreDataBulk 2026 example_batch empty_database))
       = [(''KL'', ''KERALA'')]
   \<and> keys (District_rows (storage (processAndStoreDataBulk 2026 example_batch empty_database)))
       = [''1601'', ''1602'']
   \<and> referential_integrity (storage (processAndStoreDataBulk 2026 example_batch empty_database))"
proof -
  have ri: "referential_integrity empty_database"
    by (simp add: referential_integrity_def empty_database_def)
  have ok: "outcome (processAndStoreDataBulk 2026 example_batch empty_database)
      = Inr (case outcome (processAndStoreDataBulk 2026 example_batch empty_database) of Inr x \<Rightarrow> x)"
    by (simp add: example_ingest)
  from ingest_referential_integrity [OF ri ok] ri show ?thesis
    by (simp add: example_ingest keys_def)
qed


text \<open>
  The order of the statements alone does not give every district its state: the states of a
  batch are collected by name and keep the code of the first record with that name. In a
  batch that names one state with two codes, the district of the second record refers to a
  code that is no state row; the store rejects it and nothing of the batch is committed.
\<close>

lemma two_codes_for_one_state_rejected:
  "outcome (processAndStoreDataBulk 2026
      [empty_record\<lparr>state_name := Some ''Kerala'', state_code := Some ''KL'',
                     district_name := Some ''Palakkad'', district_code := Some ''1601'',
                     fin_year := Some ''2024-2025'', month := Some ''Dec''\<rparr>,
       empty_record\<lparr>state_name := Some ''Kerala'', state_code := Some ''32'',
                     district_name := Some ''Idukki'', district_code := Some ''1602'',
                     fin_year := Some ''2024-2025'', month := Some ''Dec''\<rparr>] empty_database)
     = Inl (ForeignKeyViolation District)
   \<and> storage (processAndStoreDataBulk 2026
      [empty_record\<lparr>state_name := Some ''Kerala'', state_code := Some ''KL'',
                     district_name := Some ''Palakkad'', district_code := Some ''1601'',
                     fin_year := Some ''2024-2025'', month := Some ''Dec''\<rparr>,
       empty_record\<lparr>state_name := Some ''Kerala'', state_code := Some ''32'',
                     district_name := Some ''Idukki'', district_code := Some ''1602'',
                     fin_year := Some ''2024-2025'', month := Some ''Dec''\<rparr>] empty_database)
     = empty_database"
  by (simp add: eval_simps)

subsection \<open>Writing the same rows twice\<close>
















lemma perf_row_same_fields: "row\<lparr>metric_fields := metric_fields row\<rparr> = row"
  by simp



lemma first_error_SomeD:
  "first_error check rows = Some e \<Longrightarrow> \<exists>r\<in>set rows. check r = Some e"
  by (induction rows) (auto split: option.splits)

lemma write_districts_Inr:
  "write_districts rows db = Inr db' \<longleftrightarrow>
     (\<forall>r\<in>set rows. stateCode (snd r) \<in> set (keys (State_rows db)))
     \<and> db' = db\<lparr>District_rows := updateOnDuplicate rows (District_rows db)\<rparr>"
proof -
  have "first_error (district_check db) rows = None
      \<longleftrightarrow> (\<forall>r\<in>set rows. stateCode (snd r) \<in> set (keys (State_rows db)))"
    by (simp add: first_error_None district_check_def)
  then show ?thesis
    by (cases "first_error (district_check db) rows") (auto simp: write_districts_def)
qed

lemma write_finYears_Inr:
  "write_finYears rows db = Inr db' \<longleftrightarrow>
     (\<forall>r\<in>set rows. finYear_check r = None)
     \<and> db' = db\<lparr>FinancialYear_rows := updateOnDuplicate rows (FinancialYear_rows db)\<rparr>"
  by (auto simp: write_finYears_def first_error_None split: option.splits dest!: first_error_SomeD)

lemma write_performance_Inr:
  "write_performance rows db = Inr (insts, db') \<longleftrightarrow>
     (\<forall>r\<in>set rows. performance_check db r = None)
     \<and> (\<exists>tbl n. upsert_performances (map (\<lambda>(k, f). (stored_key k, f)) rows)
                   (DistrictPerformance_rows db, DistrictPerformance_next_id db) = (insts, tbl, n)
          \<and> db' = db\<lparr>DistrictPerformance_rows := tbl, DistrictPerformance_next_id := n\<rparr>)"
  by (auto simp: write_performance_def first_error_None split: option.splits prod.splits
      dest!: first_error_SomeD)

lemma write_extended_Inr:
  "write_extended insts db = Inr db' \<longleftrightarrow>
     set (ids insts) \<subseteq> set (performance_ids db)
     \<and> (\<exists>tbl n. fold (\<lambda>p. insert_ignore p zero_indicators) (ids insts)
                   (DistrictExtendedMetrics_rows db, DistrictExtendedMetrics_next_id db) = (tbl, n)
          \<and> db' = db\<lparr>DistrictExtendedMetrics_rows := tbl, DistrictExtendedMetrics_next_id := n\<rparr>)"
proof -
  have "first_error (extended_check db) (ids insts) = None
      \<longleftrightarrow> set (ids insts) \<subseteq> set (performance_ids db)"
    by (auto simp: first_error_None extended_check_def)
  then show ?thesis
    by (cases "first_error (extended_check db) (ids insts)")
       (auto simp: write_extended_def ids_def Let_def split: prod.splits)
qed

subsection \<open>How a batch can fail\<close>

lemma fold_set_if_absent_entries:
  assumes "\<forall>e\<in>set m0. P e"
  shows "\<forall>e\<in>set (fold (\<lambda>r m. set_if_absent (key r) (val r) m) rs m0). P e \<or> e \<in> (\<lambda>r. (key r, val r)) ` set rs"
  using assms
proof (induction rs arbitrary: m0 P)
  case Nil
  then show ?case by simp
next
  case (Cons r rs)
  have "\<forall>e\<in>set (set_if_absent (key r) (val r) m0). (P e \<or> e = (key r, val r))"
    using Cons.prems by (auto simp: set_if_absent_def)
  from Cons.IH [OF this] show ?case by auto
qed

lemma fold_set_if_absent_keys:
  "set (keys (fold (\<lambda>r m. set_if_absent (key r) (val r) m) rs m0)) = set (keys m0) \<union> key ` set rs"
proof (induction rs arbitrary: m0)
  case Nil
  then show ?case by simp
next
  case (Cons r rs)
  have "set (keys (set_if_absent (key r) (val r) m0)) = insert (key r) (set (keys m0))"
    by (auto simp: set_if_absent_def keys_def)
  with Cons.IH [of "set_if_absent (key r) (val r) m0"] show ?case by auto
qed

lemma keys_extractUniqueDistricts:
  "set (keys (extractUniqueDistricts b)) = record_districtCode ` set b"
proof -
  let ?key = record_districtCode
  let ?val = "\<lambda>r. (record_districtCode r,
      \<lparr>districtName = upper_or_empty (district_name r), stateCode = record_stateCode r\<rparr>)"
  let ?m = "fold (\<lambda>r m. set_if_absent (?key r) (?val r) m) b []"
  have ex: "extractUniqueDistricts b = map snd ?m"
    by (simp add: extractUniqueDistricts_def Let_def)
  have "\<forall>e\<in>set ?m. False \<or> e \<in> (\<lambda>r. (?key r, ?val r)) ` set b"
    by (rule fold_set_if_absent_entries) simp
  then have same: "\<forall>e\<in>set ?m. fst (snd e) = fst e" by auto
  then have "keys (map snd ?m) = keys ?m" by (simp add: keys_def)
  with fold_set_if_absent_keys [of ?key ?val b "[]"] show ?thesis
    by (simp add: ex keys_def)
qed

lemma keys_extractUniqueFinYears:
  "set (keys (extractUniqueFinYears cy b)) = (\<lambda>r. or_text (fin_year r) []) ` set b"
proof -
  let ?key = "\<lambda>r. or_text (fin_year r) []"
  let ?val = "\<lambda>r. (or_text (fin_year r) [], parseFinancialYear cy (Some (or_text (fin_year r) [])))"
  let ?m = "fold (\<lambda>r m. set_if_absent (?key r) (?val r) m) b []"
  have ex: "extractUniqueFinYears cy b = map snd ?m"
    by (simp add: extractUniqueFinYears_def set_if_absent_def Let_def)
  have "\<forall>e\<in>set ?m. False \<or> e \<in> (\<lambda>r. (?key r, ?val r)) ` set b"
    by (rule fold_set_if_absent_entries) simp
  then have same: "\<forall>e\<in>set ?m. fst (snd e) = fst e" by auto
  then have "keys (map snd ?m) = keys ?m" by (simp add: keys_def)
  with fold_set_if_absent_keys [of ?key ?val b "[]"] show ?thesis
    by (simp add: ex keys_def)
qed

lemma first_error_range:
  "first_error check rows = Some e \<Longrightarrow> \<forall>r\<in>set rows. check r = None \<or> check r \<in> Some ` E \<Longrightarrow> e \<in> E"
  by (auto dest!: first_error_SomeD)

text \<open>
  The only errors the reconciliation of a batch can end with: a district whose state code is
  not the key of a state row, a financial year label whose years do not parse, and a record
  without a month. The references of the performance rows and of the extended metrics rows
  always resolve, because their parents are written by the earlier statements of the batch.
\<close>

lemma ingest_db_errors:
  assumes "ingest_db cy b db = Inl e"
  shows "e = ForeignKeyViolation District \<or> e = InvalidNumber FinancialYear
       \<or> e = NotNullViolation DistrictPerformance"
proof -
  let ?db1 = "write_states (extractUniqueStates b) db"
  consider (d) "write_districts (extractUniqueDistricts b) ?db1 = Inl e"
    | (f) db2 where "write_districts (extractUniqueDistricts b) ?db1 = Inr db2"
        "write_finYears (extractUniqueFinYears cy b) db2 = Inl e"
    | (p) db2 db3 where "write_districts (extractUniqueDistricts b) ?db1 = Inr db2"
        "write_finYears (extractUniqueFinYears cy b) db2 = Inr db3"
        "write_performance (preparePerformanceRecords b) db3 = Inl e"
    | (x) db2 db3 db4 insts where "write_districts (extractUniqueDistricts b) ?db1 = Inr db2"
        "write_finYears (extractUniqueFinYears cy b) db2 = Inr db3"
        "write_performance (preparePerformanceRecords b) db3 = Inr (insts, db4)"
        "write_extended insts db4 = Inl e"
    using assms by (auto simp: ingest_db_def split: sum.splits)
  then show ?thesis
  proof cases
    case d
    then have "first_error (district_check ?db1) (extractUniqueDistricts b) = Some e"
      by (auto simp: write_districts_def split: option.splits)
    then have "e \<in> {ForeignKeyViolation District}"
      by (rule first_error_range) (simp add: district_check_def)
    then show ?thesis by simp
  next
    case f
    then have "first_error finYear_check (extractUniqueFinYears cy b) = Some e"
      by (auto simp: write_finYears_def split: option.splits)
    then have "e \<in> {InvalidNumber FinancialYear}"
      by (rule first_error_range) (simp add: finYear_check_def)
    then show ?thesis by simp
  next
    case p
    from p(1) have D: "District_rows db2 = updateOnDuplicate (extractUniqueDistricts b) (District_rows ?db1)"
      by (auto simp: write_districts_Inr)
    from p(2) have F: "FinancialYear_rows db3
        = updateOnDuplicate (extractUniqueFinYears cy b) (FinancialYear_rows db2)"
      and D3: "District_rows db3 = District_rows db2"
      by (auto simp: write_finYears_Inr)
    from p(3) have "first_error (performance_check db3) (preparePerformanceRecords b) = Some e"
      by (auto simp: write_performance_def split: option.splits prod.splits)
    moreover have "\<forall>r\<in>set (preparePerformanceRecords b).
        performance_check db3 r = None
        \<or> performance_check db3 r \<in> Some ` {NotNullViolation DistrictPerformance}"
      by (auto simp: preparePerformanceRecords_def performance_check_def D3 D F
          keys_updateOnDuplicate keys_extractUniqueDistricts keys_extractUniqueFinYears)
    ultimately have "e \<in> {NotNullViolation DistrictPerformance}"
      by (rule first_error_range)
    then show ?thesis by simp
  next
    case x
    from x(3) obtain tbl n where
      run: "upsert_performances (map (\<lambda>(k, f). (stored_key k, f)) (preparePerformanceRecords b))
                (DistrictPerformance_rows db3, DistrictPerformance_next_id db3) = (insts, tbl, n)"
      and db4: "db4 = db3\<lparr>DistrictPerformance_rows := tbl, DistrictPerformance_next_id := n\<rparr>"
      by (auto simp: write_performance_Inr)
    from upsert_performances_spec(3) [OF run] have "set (ids insts) \<subseteq> set (performance_ids db4)"
      by (simp add: db4 performance_ids_def)
    then have "\<exists>d. write_extended insts db4 = Inr d"
      by (auto simp: write_extended_Inr split: prod.splits)
    with x(4) show ?thesis by simp
  qed
qed

subsection \<open>Idempotent ingestion\<close>







section \<open>Query resolver: results\<close>

subsection \<open>Counting upstream calls\<close>

lemma at_most_calls_refl: "at_most_calls 0 w w"
  by (simp add: at_most_calls_def)

lemma at_most_calls_trans:
  "at_most_calls m w w1 \<Longrightarrow> at_most_calls n w1 w2 \<Longrightarrow> at_most_calls (m + n) w w2"
proof -
  assume a: "at_most_calls m w w1" and b: "at_most_calls n w1 w2"
  from a have l1: "length (calls w1) \<le> length (calls w) + m"
    and t1: "take (length (calls w)) (calls w1) = calls w"
    by (simp_all add: at_most_calls_def)
  from b have l2: "length (calls w2) \<le> length (calls w1) + n"
    and t2: "take (length (calls w1)) (calls w2) = calls w1"
    by (simp_all add: at_most_calls_def)
  have "length (take (length (calls w)) (calls w1)) = length (calls w)"
    by (simp only: t1)
  then have le: "length (calls w) \<le> length (calls w1)" by simp
  have "take (length (calls w)) (calls w2)
      = take (length (calls w)) (take (length (calls w1)) (calls w2))"
    using le by (simp add: min_def)
  also have "\<dots> = calls w" by (simp only: t2 t1)
  finally show ?thesis using l1 l2 by (simp add: at_most_calls_def)
qed

lemma at_most_calls_mono: "at_most_calls m w w' \<Longrightarrow> m \<le> n \<Longrightarrow> at_most_calls n w w'"
  by (simp add: at_most_calls_def)

lemma fetch_calls:
  "fetchDistrictData env a w = (r, w') \<Longrightarrow> at_most_calls 1 w w'"
  by (auto simp: fetchDistrictData_def at_most_calls_def)

lemma store_calls:
  "store_records env recs w = (r, w') \<Longrightarrow> at_most_calls 0 w w'"
  by (auto simp: store_records_def at_most_calls_def Let_def)

lemma at_most_callsI:
  "calls w' = calls w @ extra \<Longrightarrow> length extra \<le> n \<Longrightarrow> at_most_calls n w w'"
  by (simp add: at_most_calls_def)

lemma calls_fetch [simp]: "calls (snd (fetchDistrictData env a w)) = calls w @ [a]"
  by (simp add: fetchDistrictData_def)

lemma calls_store [simp]: "calls (snd (store_records env recs w)) = calls w"
  by (simp add: store_records_def Let_def)

lemma calls_fetchD: "fetchDistrictData env a w = (r, w') \<Longrightarrow> calls w' = calls w @ [a]"
  using calls_fetch [of env a w] by simp

lemma calls_storeD: "store_records env recs w = (r, w') \<Longrightarrow> calls w' = calls w"
  using calls_store [of env recs w] by simp

lemma buildWhereClause_calls:
  assumes "buildWhereClause env fy mo di sc sn w = (r, w')"
  shows "\<exists>extra. calls w' = calls w @ extra \<and> length extra \<le> 1"
  using assms
  by (auto simp: buildWhereClause_def Let_def
      split: option.splits prod.splits sum.splits if_splits
      dest!: calls_fetchD calls_storeD)

lemma buildWhereClause_local:
  assumes "truthy di = None \<or> (\<exists>dn. truthy di = Some dn \<and> District_findOne (store w) (toUpperCase dn) sc \<noteq> None)"
  shows "snd (buildWhereClause env fy mo di sc sn w) = w"
  using assms by (auto simp: buildWhereClause_def Let_def split: option.splits)

lemma fallback_loop_calls:
  "\<exists>k\<le>length years.
      calls (fallback_loop env st years w) = calls w @ map (\<lambda>y. (st, y, None)) (take k years)"
proof (induction years arbitrary: w)
  case Nil
  then show ?case by simp
next
  case (Cons y years)
  obtain r w1 where f: "fetchDistrictData env (st, y, None) w = (r, w1)" by (cases "fetchDistrictData env (st, y, None) w")
  then have c1: "calls w1 = calls w @ [(st, y, None)]" by (rule calls_fetchD)
  from Cons.IH [of w1] obtain k where k: "k \<le> length years"
    "calls (fallback_loop env st years w1) = calls w1 @ map (\<lambda>y. (st, y, None)) (take k years)"
    by blast
  have more: "\<exists>k\<le>length (y # years). calls (fallback_loop env st years w1)
                = calls w @ map (\<lambda>y. (st, y, None)) (take k (y # years))"
    using k c1 by (intro exI [of _ "Suc k"]) simp
  have stop: "\<exists>k\<le>length (y # years). calls w2
                = calls w @ map (\<lambda>y. (st, y, None)) (take k (y # years))"
    if "calls w2 = calls w1" for w2
    using that c1 by (intro exI [of _ 1]) simp
  show ?case
  proof (cases r)
    case (Inl e)
    with f more show ?thesis by simp
  next
    case (Inr recs)
    show ?thesis
    proof (cases "recs = []")
      case True
      with f Inr more show ?thesis by simp
    next
      case False
      obtain r2 w2 where s: "store_records env recs w1 = (r2, w2)" by (cases "store_records env recs w1")
      then have c2: "calls w2 = calls w1" by (rule calls_storeD)
      from Cons.IH [of w2] obtain k2 where k2: "k2 \<le> length years"
        "calls (fallback_loop env st years w2) = calls w2 @ map (\<lambda>y. (st, y, None)) (take k2 years)"
        by blast
      have more2: "\<exists>k\<le>length (y # years). calls (fallback_loop env st years w2)
                = calls w @ map (\<lambda>y. (st, y, None)) (take k (y # years))"
        using k2 c1 c2 by (intro exI [of _ "Suc k2"]) simp
      show ?thesis
      proof (cases r2)
        case (Inl e)
        with f Inr False s more2 show ?thesis by simp
      next
        case (Inr stored)
        with f \<open>r = Inr recs\<close> False s stop [OF c2] show ?thesis by simp
      qed
    qed
  qed
qed

lemma fallback_loop_calls_bound:
  "\<exists>extra. calls (fallback_loop env st years w) = calls w @ extra \<and> length extra \<le> length years"
proof -
  from fallback_loop_calls [of years env st w] obtain k where "k \<le> length years"
    "calls (fallback_loop env st years w) = calls w @ map (\<lambda>y. (st, y, None)) (take k years)"
    by blast
  then show ?thesis by (intro exI [of _ "map (\<lambda>y. (st, y, None)) (take k years)"]) simp
qed

lemma resolve_state_calls:
  assumes "resolve_state env st di fy w = (r, w')"
  shows "\<exists>extra. calls w' = calls w @ extra \<and> length extra \<le> 1 + length fallbackYears
           \<and> ((\<exists>sr. r = Inr sr) \<longrightarrow> length extra \<le> 1)"
proof (cases "State_findOne (store w) (toUpperCase st)")
  case (Some sr)
  with assms show ?thesis by (auto simp: resolve_state_def)
next
  case None
  obtain r1 w1 where f: "fetchDistrictData env (st, fy, di) w = (r1, w1)"
    by (cases "fetchDistrictData env (st, fy, di) w")
  then have c1: "calls w1 = calls w @ [(st, fy, di)]" by (rule calls_fetchD)
  show ?thesis
  proof (cases r1)
    case (Inl e)
    with assms None f c1 show ?thesis by (auto simp: resolve_state_def)
  next
    case (Inr recs)
    show ?thesis
    proof (cases "recs = []")
      case True
      from fallback_loop_calls_bound [of env st fallbackYears w1] obtain extra
        where "calls (fallback_loop env st fallbackYears w1) = calls w1 @ extra"
          "length extra \<le> length fallbackYears" by blast
      with c1 have "calls (fallback_loop env st fallbackYears w1) = calls w @ ((st, fy, di) # extra)"
        "length ((st, fy, di) # extra) \<le> 1 + length fallbackYears" by simp_all
      moreover from assms None f Inr True
      have "w' = fallback_loop env st fallbackYears w1" "\<exists>res. r = Inl res"
        by (auto simp: resolve_state_def Let_def split: option.splits)
      ultimately show ?thesis by auto
    next
      case False
      obtain r2 w2 where s: "store_records env recs w1 = (r2, w2)"
        by (cases "store_records env recs w1")
      then have c2: "calls w2 = calls w1" by (rule calls_storeD)
      from assms None f Inr False s have "w' = w2"
        by (auto simp: resolve_state_def split: sum.splits)
      with c1 c2 show ?thesis by auto
    qed
  qed
qed

lemma refetch_calls:
  assumes "refetch env st di fy mo sr w = (r, w')"
  shows "\<exists>extra. calls w' = calls w @ extra \<and> length extra \<le> 2"
proof -
  obtain r1 w1 where f: "fetchDistrictData env (st, fy, di) w = (r1, w1)"
    by (cases "fetchDistrictData env (st, fy, di) w")
  then have c1: "calls w1 = calls w @ [(st, fy, di)]" by (rule calls_fetchD)
  show ?thesis
  proof (cases r1)
    case (Inl e)
    with assms f c1 show ?thesis by (auto simp: refetch_def)
  next
    case (Inr recs)
    show ?thesis
    proof (cases "recs = []")
      case True
      with assms f Inr c1 show ?thesis by (auto simp: refetch_def)
    next
      case False
      obtain r2 w2 where s: "store_records env recs w1 = (r2, w2)"
        by (cases "store_records env recs w1")
      then have c2: "calls w2 = calls w1" by (rule calls_storeD)
      show ?thesis
      proof (cases r2)
        case (Inl e)
        with assms f \<open>r1 = Inr recs\<close> False s c1 c2 show ?thesis by (auto simp: refetch_def)
      next
        case (Inr stored)
        obtain r3 w3 where b: "buildWhereClause env fy mo di (fst sr) (snd sr) w2 = (r3, w3)"
          by (cases "buildWhereClause env fy mo di (fst sr) (snd sr) w2")
        from buildWhereClause_calls [OF b] obtain extra
          where "calls w3 = calls w2 @ extra" "length extra \<le> 1" by blast
        with c1 c2 have "calls w3 = calls w @ ((st, fy, di) # extra)"
          "length ((st, fy, di) # extra) \<le> 2" by simp_all
        moreover from assms f \<open>r1 = Inr recs\<close> False s Inr b have "w' = w3"
          by (auto simp: refetch_def split: option.splits)
        ultimately show ?thesis by blast
      qed
    qed
  qed
qed

subsection \<open>Bounded upstream calls\<close>

lemma getDistrictData_calls:
  "\<exists>extra. calls (snd (getDistrictData env req w)) = calls w @ extra \<and> length extra \<le> 4"
proof (cases "truthy (q_state req)")
  case None
  then show ?thesis by (simp add: getDistrictData_def)
next
  case st: (Some st)
  show ?thesis
  proof (cases "truthy (q_finYear req)")
    case None
    with st show ?thesis by (simp add: getDistrictData_def)
  next
    case fy: (Some fy)
    obtain r1 w1 where rs: "resolve_state env st (q_district req) fy w = (r1, w1)"
      by (cases "resolve_state env st (q_district req) fy w")
    from resolve_state_calls [OF rs] obtain e1 where e1: "calls w1 = calls w @ e1"
      "length e1 \<le> 1 + length fallbackYears" "(\<exists>sr. r1 = Inr sr) \<longrightarrow> length e1 \<le> 1"
      by blast
    have four: "length e1 \<le> 4" using e1(2) by (simp add: fallbackYears_def)
    show ?thesis
    proof (cases r1)
      case (Inl res)
      with st fy rs e1(1) four show ?thesis by (auto simp: getDistrictData_def)
    next
      case (Inr found_state)
      with e1(3) have one: "length e1 \<le> 1" by simp
      show ?thesis
      proof (cases found_state)
        case None
        with st fy rs Inr e1(1) four show ?thesis by (auto simp: getDistrictData_def)
      next
        case (Some sr)
        obtain r2 w2 where b: "buildWhereClause env fy (q_month req) (q_district req)
                                  (fst sr) (snd sr) w1 = (r2, w2)"
          by (cases "buildWhereClause env fy (q_month req) (q_district req) (fst sr) (snd sr) w1")
        from buildWhereClause_calls [OF b] obtain e2 where e2: "calls w2 = calls w1 @ e2"
          "length e2 \<le> 1" by blast
        from e1(1) e2 one have c2: "calls w2 = calls w @ (e1 @ e2)" "length (e1 @ e2) \<le> 2"
          by simp_all
        show ?thesis
        proof (cases r2)
          case None
          with st fy rs Inr Some b have "snd (getDistrictData env req w) = w2"
            by (auto simp: getDistrictData_def split: option.splits)
          with c2 show ?thesis by (intro exI [of _ "e1 @ e2"]) simp
        next
          case wc: (Some whereClause)
          show ?thesis
          proof (cases "fetchPerformanceData whereClause (fst sr) (store w2) = []")
            case False
            with st fy rs Inr Some b wc have "snd (getDistrictData env req w) = w2"
              by (auto simp: getDistrictData_def Let_def)
            with c2 show ?thesis by (intro exI [of _ "e1 @ e2"]) simp
          next
            case True
            obtain r3 w3 where rf: "refetch env st (q_district req) fy (q_month req) sr w2 = (r3, w3)"
              by (cases "refetch env st (q_district req) fy (q_month req) sr w2")
            from refetch_calls [OF rf] obtain e3 where e3: "calls w3 = calls w2 @ e3"
              "length e3 \<le> 2" by blast
            from st fy rs Inr Some b wc True rf have "snd (getDistrictData env req w) = w3"
              by (auto simp: getDistrictData_def Let_def split: sum.splits)
            with c2 e3 show ?thesis by (intro exI [of _ "e1 @ e2 @ e3"]) simp
          qed
        qed
      qed
    qed
  qed
qed

lemma getDistrictData_local:
  assumes "resolved_locally (store w) req"
  shows "snd (getDistrictData env req w) = w"
    and "status (fst (getDistrictData env req w)) = 200"
    and "success (fst (getDistrictData env req w))"
    and "payload (fst (getDistrictData env req w)) \<noteq> []"
proof -
  from assms obtain st fy sr where st: "truthy (q_state req) = Some st"
    and fy: "truthy (q_finYear req) = Some fy"
    and sr: "State_findOne (store w) (toUpperCase st) = Some sr"
    by (auto simp: resolved_locally_def split: option.splits)
  then have rs: "resolve_state env st (q_district req) fy w = (Inr (Some sr), w)"
    by (simp add: resolve_state_def)
  from assms st fy sr obtain whereClause where
    b: "buildWhereClause env fy (q_month req) (q_district req) (fst sr) (snd sr) w
          = (Some whereClause, w)"
    and rows: "fetchPerformanceData whereClause (fst sr) (store w) \<noteq> []"
    by (auto simp: resolved_locally_def buildWhereClause_def Let_def split: option.splits)
  from st fy rs b rows
  have "getDistrictData env req w = (found (fetchPerformanceData whereClause (fst sr) (store w)), w)"
    by (simp add: getDistrictData_def Let_def)
  with rows show "snd (getDistrictData env req w) = w"
    and "status (fst (getDistrictData env req w)) = 200"
    and "success (fst (getDistrictData env req w))"
    and "payload (fst (getDistrictData env req w)) \<noteq> []"
    by (simp_all add: found_def)
qed

text \<open>
  Claim C2. A request whose data is fully present in the store (the state resolves, the
  district, when given, resolves, and performance rows match) makes no upstream call, leaves
  the world as it is and answers 200. Every request makes at most four upstream calls, which
  is within the fallback attempts plus one district-scoped attempt plus one general retry;
  the calls made before are never changed.
\<close>

theorem getDistrictData_upstream_calls:
  "(resolved_locally (store w) req \<longrightarrow>
      calls (snd (getDistrictData env req w)) = calls w
      \<and> snd (getDistrictData env req w) = w
      \<and> status (fst (getDistrictData env req w)) = 200)
   \<and> at_most_calls 4 w (snd (getDistrictData env req w))
   \<and> at_most_calls (length fallbackYears + 1 + 1) w (snd (getDistrictData env req w))"
proof -
  from getDistrictData_calls [of env req w] obtain extra
    where "calls (snd (getDistrictData env req w)) = calls w @ extra" "length extra \<le> 4"
    by blast
  then have four: "at_most_calls 4 w (snd (getDistrictData env req w))"
    by (rule at_most_callsI)
  then have "at_most_calls (length fallbackYears + 1 + 1) w (snd (getDistrictData env req w))"
    by (rule at_most_calls_mono) (simp add: fallbackYears_def)
  with four show ?thesis
    by (simp add: getDistrictData_local)
qed


text \<open>Unfolding everything a concrete request runs through.\<close>

lemmas resolver_simps = getDistrictData_def resolve_state_def refetch_def buildWhereClause_def
  fetchDistrictData_def store_records_def scripted_def State_findOne_def District_findOne_def
  fetchPerformanceData_def truthy_def fallbackYears_def toUpperCase_def toUpperChar_def Let_def

theorem getDistrictData_upstream_calls_witness:
  "resolved_locally
     (store \<lparr>store = storage (processAndStoreDataBulk 2026 example_batch empty_database), calls = []\<rparr>)
     \<lparr>q_state = Some ''Kerala'', q_district = Some ''Palakkad'',
      q_finYear = Some ''2024-2025'', q_month = None\<rparr>
   \<and> calls (snd (getDistrictData \<lparr>upstream = scripted [], currentYear = 2026\<rparr>
        \<lparr>q_state = Some ''Kerala'', q_district = Some ''Palakkad'',
         q_finYear = Some ''2024-2025'', q_month = None\<rparr>
        \<lparr>store = storage (processAndStoreDataBulk 2026 example_batch empty_database), calls = []\<rparr>))
       = []
   \<and> status (fst (getDistrictData \<lparr>upstream = scripted [], currentYear = 2026\<rparr>
        \<lparr>q_state = Some ''Kerala'', q_district = Some ''Palakkad'',
         q_finYear = Some ''2024-2025'', q_month = None\<rparr>
        \<lparr>store = storage (processAndStoreDataBulk 2026 example_batch empty_database), calls = []\<rparr>))
       = 200"
proof -
  have local: "resolved_locally
     (store \<lparr>store = storage (processAndStoreDataBulk 2026 example_batch empty_database), calls = []\<rparr>)
     \<lparr>q_state = Some ''Kerala'', q_district = Some ''Palakkad'',
      q_finYear = Some ''2024-2025'', q_month = None\<rparr>"
    by (simp add: example_ingest resolved_locally_def resolver_simps default_fields_def)
  from getDistrictData_upstream_calls [of
      "\<lparr>store = storage (processAndStoreDataBulk 2026 example_batch empty_database), calls = []\<rparr>"
      "\<lparr>q_state = Some ''Kerala'', q_district = Some ''Palakkad'',
        q_finYear = Some ''2024-2025'', q_month = None\<rparr>"
      "\<lparr>upstream = scripted [], currentYear = 2026\<rparr>"] local
  show ?thesis by simp
qed

text \<open>
  A request with no local data and an upstream without data makes four calls: the requested
  period, then the three fallback years.
\<close>

lemma no_data_anywhere_calls:
  "calls (snd (getDistrictData \<lparr>upstream = scripted [], currentYear = 2026\<rparr>
        \<lparr>q_state = Some ''Kerala'', q_district = Some ''Palakkad'',
         q_finYear = Some ''2024-2025'', q_month = None\<rparr>
        \<lparr>store = empty_database, calls = []\<rparr>))
     = [(''Kerala'', ''2024-2025'', Some ''Palakkad''), (''Kerala'', ''2023-2024'', None),
        (''Kerala'', ''2022-2023'', None), (''Kerala'', ''2021-2022'', None)]"
  by (simp add: resolver_simps empty_database_def)

subsection \<open>The two not-found outcomes\<close>

lemma db_fetch [simp]: "store (snd (fetchDistrictData env a w)) = store w"
  by (simp add: fetchDistrictData_def)

lemma fetch_result: "fst (fetchDistrictData env a w) = upstream env (length (calls w)) a"
  by (simp add: fetchDistrictData_def)











end
